theory Spec2Isabelle
  imports Main "HOL-Library.Word"
begin

section \<open>Basic types, revert reasons and checked arithmetic\<close>

text \<open>
  The contracts are Solidity 0.8.23. A \<open>uint256\<close> is modelled as a natural number and every
  arithmetic operator of the source as a checked operation that reverts with a panic where the
  EVM value would leave the range \<open>0 .. 2^256 - 1\<close> (or divide by zero). An \<open>int24\<close> is an
  integer. A revert is the left injection of a sum; the caller's state is then the state before
  the call (see \<open>transact\<close> below).
\<close>

type_synonym address = "160 word"
type_synonym bytes = "8 word list"

definition UINT256_MAX :: nat where
  "UINT256_MAX = 2 ^ 256 - 1"

datatype error =
    VaultNotFound
  | InsufficientDeposit
  | InsufficientShares
  | UnauthorizedRelayer
  | VaultInactive
  | InvalidTokens
  | ZeroAddress
  | InvalidSignature
  | PayloadExpired
  | PayloadTooOld
  | InvalidNonce
  | UnauthorizedSigner
  | ExecutionFailed
  | RequireFailed string
  | PanicArithmetic
  | PanicDivisionByZero
  | AbiDecodeFailed
  | EnforcedPause
  | ExpectedPause
  | ReentrancyGuardReentrantCall
  | OwnableUnauthorizedAccount address
  | OwnableInvalidOwner address
  | ERC20InsufficientAllowance
  | ERC20InsufficientBalance
  | ERC20InvalidSender
  | ERC20InvalidReceiver
  | ERC20InvalidApprover
  | ERC20InvalidSpender
  | ECDSAInvalidSignature

definition and_then :: "error + 'a \<Rightarrow> ('a \<Rightarrow> error + 'b) \<Rightarrow> error + 'b" where
  "and_then r f = (case r of Inl e \<Rightarrow> Inl e | Inr v \<Rightarrow> f v)"

definition checked_add :: "nat \<Rightarrow> nat \<Rightarrow> error + nat" where
  "checked_add a b = (if UINT256_MAX < a + b then Inl PanicArithmetic else Inr (a + b))"

definition checked_sub :: "nat \<Rightarrow> nat \<Rightarrow> error + nat" where
  "checked_sub a b = (if a < b then Inl PanicArithmetic else Inr (a - b))"

definition checked_mul :: "nat \<Rightarrow> nat \<Rightarrow> error + nat" where
  "checked_mul a b = (if UINT256_MAX < a * b then Inl PanicArithmetic else Inr (a * b))"

definition checked_div :: "nat \<Rightarrow> nat \<Rightarrow> error + nat" where
  "checked_div a b = (if b = 0 then Inl PanicDivisionByZero else Inr (a div b))"

section \<open>Data model (interfaces/IVault.sol)\<close>

record RebalancePayload =
  vaultId :: nat
  nonce :: nat
  actionData :: bytes
  issuedAt :: nat
  expiry :: nat

record VaultInfo =
  vaultId :: nat
  owner :: address
  tokenA :: address
  tokenB :: address
  totalShares :: nat
  totalTokenA :: nat
  totalTokenB :: nat
  strategy :: address
  lastRebalance :: nat
  isActive :: bool

record StrategyParams =
  tickLower :: int
  tickUpper :: int
  rebalanceThreshold :: nat
  autoRebalance :: bool

text \<open>
  The two tokens of a vault are external ERC-20 contracts. The repository's own tokens
  (MockERC20 and its subclasses) inherit the OpenZeppelin ERC-20, whose balance and allowance
  bookkeeping is all the vault code relies on: \<open>balanceOf t a\<close> is the balance of account
  \<open>a\<close> in token \<open>t\<close>, \<open>allowance t a s\<close> what \<open>s\<close> may spend for \<open>a\<close>.
\<close>

record erc20 =
  balanceOf :: "address \<Rightarrow> address \<Rightarrow> nat"
  allowance :: "address \<Rightarrow> address \<Rightarrow> address \<Rightarrow> nat"

text \<open>
  The storage of the two deployed contracts and of the tokens. The first block is
  VaultManager (with the storage of Ownable2Step, Pausable and ReentrancyGuard it inherits and
  its own address), the second RebalanceExecutor.
\<close>

record world =
  vaultCount :: nat
  vaults :: "nat \<Rightarrow> VaultInfo"
  vaultStrategies :: "nat \<Rightarrow> StrategyParams"
  userShares :: "nat \<Rightarrow> address \<Rightarrow> nat"
  authorizedRelayers :: "address \<Rightarrow> bool"
  strategyManager :: address
  protocolFeeBps :: nat
  feeRecipient :: address
  vm_owner :: address
  vm_pendingOwner :: address
  vm_paused :: bool
  vm_entered :: bool
  vm_this :: address
  vaultManager :: address
  authorizedSigners :: "address \<Rightarrow> bool"
  nonces :: "address \<Rightarrow> nat"
  maxPayloadAge :: nat
  maxExpiryDuration :: nat
  ex_owner :: address
  ex_pendingOwner :: address
  ex_this :: address
  tokens :: erc20

definition MIN_DEPOSIT :: nat where
  "MIN_DEPOSIT = 1000000"

section \<open>Token transfers (SafeERC20 over an OpenZeppelin ERC-20)\<close>

definition erc20_move :: "address \<Rightarrow> address \<Rightarrow> address \<Rightarrow> nat \<Rightarrow> erc20 \<Rightarrow> error + erc20" where
  "erc20_move tok src dst amount t =
     (if src = 0 then Inl ERC20InvalidSender
      else if dst = 0 then Inl ERC20InvalidReceiver
      else if balanceOf t tok src < amount then Inl ERC20InsufficientBalance
      else
        let b1 = (balanceOf t tok)(src := balanceOf t tok src - amount);
            b2 = b1(dst := b1 dst + amount)
        in Inr (t\<lparr>balanceOf := (balanceOf t)(tok := b2)\<rparr>))"

definition erc20_spendAllowance :: "address \<Rightarrow> address \<Rightarrow> address \<Rightarrow> nat \<Rightarrow> erc20 \<Rightarrow> error + erc20" where
  "erc20_spendAllowance tok holder spender amount t =
     (let current = allowance t tok holder spender in
      if current < UINT256_MAX then
        (if current < amount then Inl ERC20InsufficientAllowance
         else if holder = 0 then Inl ERC20InvalidApprover
         else if spender = 0 then Inl ERC20InvalidSpender
         else Inr (t\<lparr>allowance := (allowance t)(tok := (allowance t tok)
                      (holder := (allowance t tok holder)(spender := current - amount)))\<rparr>))
      else Inr t)"

text \<open>\<open>transferFrom\<close> called by \<open>spender\<close>: the allowance is spent, then the amount moves.\<close>

definition erc20_transferFrom ::
  "address \<Rightarrow> address \<Rightarrow> address \<Rightarrow> address \<Rightarrow> nat \<Rightarrow> erc20 \<Rightarrow> error + erc20" where
  "erc20_transferFrom tok spender src dst amount t =
     and_then (erc20_spendAllowance tok src spender amount t) (erc20_move tok src dst amount)"

text \<open>\<open>IERC20(tok).safeTransfer(dst, amount)\<close> called by the VaultManager.\<close>

definition safeTransfer :: "address \<Rightarrow> address \<Rightarrow> nat \<Rightarrow> world \<Rightarrow> error + world" where
  "safeTransfer tok dst amount w =
     and_then (erc20_move tok (vm_this w) dst amount (tokens w)) (\<lambda>t. Inr (w\<lparr>tokens := t\<rparr>))"

text \<open>\<open>IERC20(tok).safeTransferFrom(src, dst, amount)\<close> called by the VaultManager.\<close>

definition safeTransferFrom :: "address \<Rightarrow> address \<Rightarrow> address \<Rightarrow> nat \<Rightarrow> world \<Rightarrow> error + world" where
  "safeTransferFrom tok src dst amount w =
     and_then (erc20_transferFrom tok (vm_this w) src dst amount (tokens w))
       (\<lambda>t. Inr (w\<lparr>tokens := t\<rparr>))"

section \<open>Modifiers\<close>

definition nonReentrant :: "(world \<Rightarrow> error + 'r \<times> world) \<Rightarrow> world \<Rightarrow> error + 'r \<times> world" where
  "nonReentrant body w =
     (if vm_entered w then Inl ReentrancyGuardReentrantCall
      else and_then (body (w\<lparr>vm_entered := True\<rparr>))
             (\<lambda>(r, w'). Inr (r, w'\<lparr>vm_entered := False\<rparr>)))"

definition whenNotPaused :: "(world \<Rightarrow> error + 'r \<times> world) \<Rightarrow> world \<Rightarrow> error + 'r \<times> world" where
  "whenNotPaused body w = (if vm_paused w then Inl EnforcedPause else body w)"

definition onlyOwner :: "address \<Rightarrow> (world \<Rightarrow> error + 'r \<times> world) \<Rightarrow> world \<Rightarrow> error + 'r \<times> world" where
  "onlyOwner sender body w =
     (if vm_owner w \<noteq> sender then Inl (OwnableUnauthorizedAccount sender) else body w)"

section \<open>VaultManager.sol\<close>

subsection \<open>\<open>_sqrt\<close>\<close>

function sqrt_loop :: "nat \<Rightarrow> nat \<Rightarrow> nat \<Rightarrow> error + nat" where
  "sqrt_loop x y z =
     (if z < y then
        (if z = 0 then Inl PanicDivisionByZero
         else if UINT256_MAX < x div z + z then Inl PanicArithmetic
         else sqrt_loop x z ((x div z + z) div 2))
      else Inr y)"
  by pat_completeness auto
termination
  by (relation "measure (\<lambda>(x, y, z). y)") auto

definition sqrt_sol :: "nat \<Rightarrow> error + nat" where
  "sqrt_sol x =
     (if x = 0 then Inr 0
      else and_then (checked_add x 1) (\<lambda>x1. sqrt_loop x x (x1 div 2)))"

subsection \<open>\<open>abi.decode(strategyData, (int24, int24, uint256))\<close>\<close>

text \<open>
  The decoder of the compiler (ABI coder v2): three 32-byte big-endian head words; fewer than
  96 bytes revert, bytes beyond them are ignored, and a word read as \<open>int24\<close> must be the
  sign extension of its low 24 bits.
\<close>

definition be_uint :: "bytes \<Rightarrow> nat" where
  "be_uint bs = foldl (\<lambda>acc b. acc * 256 + unat b) 0 bs"

definition abi_decode_int24 :: "bytes \<Rightarrow> int option" where
  "abi_decode_int24 word32 =
     (let v = be_uint word32 in
      if v < 2 ^ 23 then Some (int v)
      else if 2 ^ 256 - 2 ^ 23 \<le> v then Some (int v - 2 ^ 256)
      else None)"

definition abi_decode_strategyData :: "bytes \<Rightarrow> error + int \<times> int \<times> nat" where
  "abi_decode_strategyData d =
     (if length d < 96 then Inl AbiDecodeFailed
      else case abi_decode_int24 (take 32 d) of
        None \<Rightarrow> Inl AbiDecodeFailed
      | Some lo \<Rightarrow>
          (case abi_decode_int24 (take 32 (drop 32 d)) of
             None \<Rightarrow> Inl AbiDecodeFailed
           | Some hi \<Rightarrow> Inr (lo, hi, be_uint (take 32 (drop 64 d)))))"

subsection \<open>External functions\<close>

definition createVault ::
  "address \<Rightarrow> nat \<Rightarrow> address \<Rightarrow> address \<Rightarrow> StrategyParams \<Rightarrow> world \<Rightarrow> error + nat \<times> world" where
  "createVault sender now tokA tokB params =
     whenNotPaused (\<lambda>w.
       if tokA = 0 \<or> tokB = 0 then Inl InvalidTokens
       else if tokA = tokB then Inl InvalidTokens
       else and_then (checked_add (vaultCount w) 1) (\<lambda>vid.
         Inr (vid, w\<lparr>vaultCount := vid,
                     vaults := (vaults w)(vid :=
                       \<lparr>vaultId = vid, owner = sender, tokenA = tokA, tokenB = tokB,
                        totalShares = 0, totalTokenA = 0, totalTokenB = 0, strategy = 0,
                        lastRebalance = now, isActive = True\<rparr>),
                     vaultStrategies := (vaultStrategies w)(vid := params)\<rparr>)))"

definition deposit_shares :: "VaultInfo \<Rightarrow> nat \<Rightarrow> nat \<Rightarrow> error + nat" where
  "deposit_shares vault amountA amountB =
     (if totalShares vault = 0 then
        and_then (checked_mul amountA amountB) sqrt_sol
      else
        and_then (checked_mul amountA (totalShares vault)) (\<lambda>pA.
        and_then (checked_div pA (totalTokenA vault)) (\<lambda>shareA.
        and_then (checked_mul amountB (totalShares vault)) (\<lambda>pB.
        and_then (checked_div pB (totalTokenB vault)) (\<lambda>shareB.
        Inr (if shareA < shareB then shareA else shareB))))))"

definition deposit :: "address \<Rightarrow> nat \<Rightarrow> nat \<Rightarrow> nat \<Rightarrow> world \<Rightarrow> error + nat \<times> world" where
  "deposit sender vid amountA amountB =
     nonReentrant (whenNotPaused (\<lambda>w.
       if owner (vaults w vid) = 0 then Inl VaultNotFound
       else if \<not> isActive (vaults w vid) then Inl VaultInactive
       else if amountA < MIN_DEPOSIT \<or> amountB < MIN_DEPOSIT then Inl InsufficientDeposit
       else
         and_then (safeTransferFrom (tokenA (vaults w vid)) sender (vm_this w) amountA w) (\<lambda>w1.
         and_then (safeTransferFrom (tokenB (vaults w1 vid)) sender (vm_this w1) amountB w1) (\<lambda>w2.
         and_then (deposit_shares (vaults w2 vid) amountA amountB) (\<lambda>shares.
         and_then (checked_add (totalShares (vaults w2 vid)) shares) (\<lambda>ts.
         and_then (checked_add (totalTokenA (vaults w2 vid)) amountA) (\<lambda>ta.
         and_then (checked_add (totalTokenB (vaults w2 vid)) amountB) (\<lambda>tb.
         and_then (checked_add (userShares w2 vid sender) shares) (\<lambda>us.
         Inr (shares,
              w2\<lparr>vaults := (vaults w2)(vid :=
                    (vaults w2 vid)\<lparr>totalShares := ts, totalTokenA := ta, totalTokenB := tb\<rparr>),
                 userShares := (userShares w2)(vid :=
                    (userShares w2 vid)(sender := us))\<rparr>))))))))))"

definition withdraw :: "address \<Rightarrow> nat \<Rightarrow> nat \<Rightarrow> world \<Rightarrow> error + (nat \<times> nat) \<times> world" where
  "withdraw sender vid shares =
     nonReentrant (\<lambda>w.
       if owner (vaults w vid) = 0 then Inl VaultNotFound
       else if userShares w vid sender < shares then Inl InsufficientShares
       else
         and_then (checked_mul shares (totalTokenA (vaults w vid))) (\<lambda>pA.
         and_then (checked_div pA (totalShares (vaults w vid))) (\<lambda>amountA.
         and_then (checked_mul shares (totalTokenB (vaults w vid))) (\<lambda>pB.
         and_then (checked_div pB (totalShares (vaults w vid))) (\<lambda>amountB.
         and_then (checked_sub (totalShares (vaults w vid)) shares) (\<lambda>ts.
         and_then (checked_sub (totalTokenA (vaults w vid)) amountA) (\<lambda>ta.
         and_then (checked_sub (totalTokenB (vaults w vid)) amountB) (\<lambda>tb.
         and_then (checked_sub (userShares w vid sender) shares) (\<lambda>us.
         let w1 = w\<lparr>vaults := (vaults w)(vid :=
                       (vaults w vid)\<lparr>totalShares := ts, totalTokenA := ta, totalTokenB := tb\<rparr>),
                    userShares := (userShares w)(vid := (userShares w vid)(sender := us))\<rparr>
         in
         and_then (safeTransfer (tokenA (vaults w1 vid)) sender amountA w1) (\<lambda>w2.
         and_then (safeTransfer (tokenB (vaults w2 vid)) sender amountB w2) (\<lambda>w3.
         Inr ((amountA, amountB), w3))))))))))))"

definition rebalance :: "address \<Rightarrow> nat \<Rightarrow> nat \<Rightarrow> bytes \<Rightarrow> world \<Rightarrow> error + unit \<times> world" where
  "rebalance sender now vid strategyData =
     nonReentrant (whenNotPaused (\<lambda>w.
       if \<not> authorizedRelayers w sender \<and> sender \<noteq> vm_owner w then Inl UnauthorizedRelayer
       else if owner (vaults w vid) = 0 then Inl VaultNotFound
       else if \<not> isActive (vaults w vid) then Inl VaultInactive
       else
         and_then (abi_decode_strategyData strategyData) (\<lambda>(newTickLower, newTickUpper, reallocatePct).
         let w1 = w\<lparr>vaultStrategies := (vaultStrategies w)(vid :=
                       (vaultStrategies w vid)\<lparr>tickLower := newTickLower, tickUpper := newTickUpper\<rparr>),
                    vaults := (vaults w)(vid := (vaults w vid)\<lparr>lastRebalance := now\<rparr>)\<rparr>
         in
         and_then (checked_mul (totalTokenA (vaults w1 vid)) (protocolFeeBps w1)) (\<lambda>pA.
         and_then (checked_mul (totalTokenB (vaults w1 vid)) (protocolFeeBps w1)) (\<lambda>pB.
         let feeA = pA div 10000; feeB = pB div 10000 in
         and_then
           (if 0 < feeA then
              and_then (checked_sub (totalTokenA (vaults w1 vid)) feeA) (\<lambda>ta.
              safeTransfer (tokenA (vaults w1 vid)) (feeRecipient w1) feeA
                (w1\<lparr>vaults := (vaults w1)(vid := (vaults w1 vid)\<lparr>totalTokenA := ta\<rparr>)\<rparr>))
            else Inr w1) (\<lambda>w2.
         and_then
           (if 0 < feeB then
              and_then (checked_sub (totalTokenB (vaults w2 vid)) feeB) (\<lambda>tb.
              safeTransfer (tokenB (vaults w2 vid)) (feeRecipient w2) feeB
                (w2\<lparr>vaults := (vaults w2)(vid := (vaults w2 vid)\<lparr>totalTokenB := tb\<rparr>)\<rparr>))
            else Inr w2) (\<lambda>w3.
         Inr ((), w3))))))))"

definition setStrategyManager :: "address \<Rightarrow> address \<Rightarrow> world \<Rightarrow> error + unit \<times> world" where
  "setStrategyManager sender sm =
     onlyOwner sender (\<lambda>w.
       if sm = 0 then Inl ZeroAddress else Inr ((), w\<lparr>strategyManager := sm\<rparr>))"

definition setRelayerAuthorization :: "address \<Rightarrow> address \<Rightarrow> bool \<Rightarrow> world \<Rightarrow> error + unit \<times> world" where
  "setRelayerAuthorization sender relayer authorized =
     onlyOwner sender (\<lambda>w.
       Inr ((), w\<lparr>authorizedRelayers := (authorizedRelayers w)(relayer := authorized)\<rparr>))"

definition setProtocolFee :: "address \<Rightarrow> nat \<Rightarrow> world \<Rightarrow> error + unit \<times> world" where
  "setProtocolFee sender newFeeBps =
     onlyOwner sender (\<lambda>w.
       if \<not> newFeeBps \<le> 1000 then Inl (RequireFailed ''Fee too high'')
       else Inr ((), w\<lparr>protocolFeeBps := newFeeBps\<rparr>))"

definition setFeeRecipient :: "address \<Rightarrow> address \<Rightarrow> world \<Rightarrow> error + unit \<times> world" where
  "setFeeRecipient sender recipient =
     onlyOwner sender (\<lambda>w.
       if recipient = 0 then Inl ZeroAddress else Inr ((), w\<lparr>feeRecipient := recipient\<rparr>))"

definition pause :: "address \<Rightarrow> world \<Rightarrow> error + unit \<times> world" where
  "pause sender =
     onlyOwner sender (whenNotPaused (\<lambda>w. Inr ((), w\<lparr>vm_paused := True\<rparr>)))"

definition unpause :: "address \<Rightarrow> world \<Rightarrow> error + unit \<times> world" where
  "unpause sender =
     onlyOwner sender (\<lambda>w.
       if \<not> vm_paused w then Inl ExpectedPause else Inr ((), w\<lparr>vm_paused := False\<rparr>))"

definition attachStrategy :: "address \<Rightarrow> nat \<Rightarrow> address \<Rightarrow> world \<Rightarrow> error + unit \<times> world" where
  "attachStrategy sender vid strat w =
     (if owner (vaults w vid) = 0 then Inl VaultNotFound
      else if \<not> (sender = owner (vaults w vid) \<or> sender = vm_owner w)
        then Inl (RequireFailed ''Unauthorized'')
      else Inr ((), w\<lparr>vaults := (vaults w)(vid := (vaults w vid)\<lparr>strategy := strat\<rparr>)\<rparr>))"

subsection \<open>Ownership (Ownable2Step) of the VaultManager\<close>

definition vm_transferOwnership :: "address \<Rightarrow> address \<Rightarrow> world \<Rightarrow> error + unit \<times> world" where
  "vm_transferOwnership sender newOwner =
     onlyOwner sender (\<lambda>w. Inr ((), w\<lparr>vm_pendingOwner := newOwner\<rparr>))"

definition vm_acceptOwnership :: "address \<Rightarrow> world \<Rightarrow> error + unit \<times> world" where
  "vm_acceptOwnership sender w =
     (if vm_pendingOwner w \<noteq> sender then Inl (OwnableUnauthorizedAccount sender)
      else Inr ((), w\<lparr>vm_pendingOwner := 0, vm_owner := sender\<rparr>))"

definition vm_renounceOwnership :: "address \<Rightarrow> world \<Rightarrow> error + unit \<times> world" where
  "vm_renounceOwnership sender =
     onlyOwner sender (\<lambda>w. Inr ((), w\<lparr>vm_pendingOwner := 0, vm_owner := 0\<rparr>))"

section \<open>RebalanceExecutor (mocks/MockOracle.sol, second contract)\<close>

text \<open>
  Three things the executor uses are not part of the repository and are taken as parameters:
  the compiler's ABI decoder for the dynamic struct \<open>RebalancePayload\<close> (\<open>None\<close> when the bytes
  do not decode), the EIP-712 digest of the payload under this deployment's domain followed
  by \<open>ECDSA.recover\<close> (which reverts on a malformed signature), and the outcome of a low-level
  call to an address other than the VaultManager's, which is taken to report success or
  failure without touching the storage of the two contracts or of the tokens.
\<close>

record environment =
  abi_decode_payload :: "bytes \<Rightarrow> RebalancePayload option"
  recover_signer :: "RebalancePayload \<Rightarrow> bytes \<Rightarrow> error + address"
  foreign_call :: "address \<Rightarrow> bool"

definition ex_onlyOwner :: "address \<Rightarrow> (world \<Rightarrow> error + 'r \<times> world) \<Rightarrow> world \<Rightarrow> error + 'r \<times> world" where
  "ex_onlyOwner sender body w =
     (if ex_owner w \<noteq> sender then Inl (OwnableUnauthorizedAccount sender) else body w)"

text \<open>
  \<open>vaultManager.call(abi.encodeWithSelector(IVaultManager.rebalance.selector, vaultId, actionData))\<close>:
  the callee sees the executor as \<open>msg.sender\<close>; a revert of the callee undoes the callee's
  changes only and is reported as \<open>success = false\<close>.
\<close>

definition call_rebalance :: "environment \<Rightarrow> address \<Rightarrow> nat \<Rightarrow> nat \<Rightarrow> bytes \<Rightarrow> world \<Rightarrow> bool \<times> world" where
  "call_rebalance env target now vid data w =
     (if target = vm_this w then
        (case rebalance (ex_this w) now vid data w of
           Inl e \<Rightarrow> (False, w)
         | Inr (u, w') \<Rightarrow> (True, w'))
      else (foreign_call env target, w))"

definition executeRebalance ::
  "environment \<Rightarrow> address \<Rightarrow> nat \<Rightarrow> nat \<Rightarrow> bytes \<Rightarrow> bytes \<Rightarrow> world \<Rightarrow> error + unit \<times> world" where
  "executeRebalance env sender now vid signedPayload signature w =
     (case abi_decode_payload env signedPayload of
        None \<Rightarrow> Inl AbiDecodeFailed
      | Some payload \<Rightarrow>
          if RebalancePayload.vaultId payload \<noteq> vid then Inl InvalidSignature
          else if expiry payload < now then Inl PayloadExpired
          else if now < issuedAt payload then Inl PayloadTooOld
          else
            and_then (checked_add (issuedAt payload) (maxPayloadAge w)) (\<lambda>limit.
            if limit < now then Inl PayloadTooOld
            else
              and_then (recover_signer env payload signature) (\<lambda>signer.
              if \<not> authorizedSigners w signer then Inl UnauthorizedSigner
              else if nonces w signer \<noteq> nonce payload then Inl InvalidNonce
              else
                and_then (checked_add (nonces w signer) 1) (\<lambda>n1.
                let w1 = w\<lparr>nonces := (nonces w)(signer := n1)\<rparr> in
                case call_rebalance env (vaultManager w1) now vid (actionData payload) w1 of
                  (success, w2) \<Rightarrow>
                    if \<not> success then Inl ExecutionFailed else Inr ((), w2)))))"

definition setSignerAuthorization :: "address \<Rightarrow> address \<Rightarrow> bool \<Rightarrow> world \<Rightarrow> error + unit \<times> world" where
  "setSignerAuthorization sender signer authorized =
     ex_onlyOwner sender (\<lambda>w.
       if signer = 0 then Inl ZeroAddress
       else Inr ((), w\<lparr>authorizedSigners := (authorizedSigners w)(signer := authorized)\<rparr>))"

definition setVaultManager :: "address \<Rightarrow> address \<Rightarrow> world \<Rightarrow> error + unit \<times> world" where
  "setVaultManager sender target =
     ex_onlyOwner sender (\<lambda>w.
       if target = 0 then Inl ZeroAddress else Inr ((), w\<lparr>vaultManager := target\<rparr>))"

definition setMaxPayloadAge :: "address \<Rightarrow> nat \<Rightarrow> world \<Rightarrow> error + unit \<times> world" where
  "setMaxPayloadAge sender maxAge =
     ex_onlyOwner sender (\<lambda>w. Inr ((), w\<lparr>maxPayloadAge := maxAge\<rparr>))"

definition setMaxExpiryDuration :: "address \<Rightarrow> nat \<Rightarrow> world \<Rightarrow> error + unit \<times> world" where
  "setMaxExpiryDuration sender maxExpiry =
     ex_onlyOwner sender (\<lambda>w. Inr ((), w\<lparr>maxExpiryDuration := maxExpiry\<rparr>))"

definition ex_transferOwnership :: "address \<Rightarrow> address \<Rightarrow> world \<Rightarrow> error + unit \<times> world" where
  "ex_transferOwnership sender newOwner =
     ex_onlyOwner sender (\<lambda>w. Inr ((), w\<lparr>ex_pendingOwner := newOwner\<rparr>))"

definition ex_acceptOwnership :: "address \<Rightarrow> world \<Rightarrow> error + unit \<times> world" where
  "ex_acceptOwnership sender w =
     (if ex_pendingOwner w \<noteq> sender then Inl (OwnableUnauthorizedAccount sender)
      else Inr ((), w\<lparr>ex_pendingOwner := 0, ex_owner := sender\<rparr>))"

definition ex_renounceOwnership :: "address \<Rightarrow> world \<Rightarrow> error + unit \<times> world" where
  "ex_renounceOwnership sender =
     ex_onlyOwner sender (\<lambda>w. Inr ((), w\<lparr>ex_pendingOwner := 0, ex_owner := 0\<rparr>))"

section \<open>Deployment and transactions\<close>

text \<open>
  The two constructors: every mapping starts zeroed, \<open>protocolFeeBps = 50\<close>,
  \<open>maxPayloadAge = 600\<close>, \<open>maxExpiryDuration = 3600\<close>. The arguments are the deployer, the
  constructor argument and the new contract's address, for the VaultManager and then for the
  executor, and the state of the tokens.
\<close>

definition deploy ::
  "address \<Rightarrow> address \<Rightarrow> address \<Rightarrow> address \<Rightarrow> address \<Rightarrow> address \<Rightarrow> erc20 \<Rightarrow> error + world" where
  "deploy vmDeployer recipient vmAddr exDeployer target exAddr toks =
     (if vmDeployer = 0 then Inl (OwnableInvalidOwner 0)
      else if recipient = 0 then Inl ZeroAddress
      else if exDeployer = 0 then Inl (OwnableInvalidOwner 0)
      else if target = 0 then Inl ZeroAddress
      else Inr
        \<lparr>vaultCount = 0,
         vaults = (\<lambda>_. \<lparr>vaultId = 0, owner = 0, tokenA = 0, tokenB = 0, totalShares = 0,
                        totalTokenA = 0, totalTokenB = 0, strategy = 0, lastRebalance = 0,
                        isActive = False\<rparr>),
         vaultStrategies = (\<lambda>_. \<lparr>tickLower = 0, tickUpper = 0, rebalanceThreshold = 0,
                                 autoRebalance = False\<rparr>),
         userShares = (\<lambda>_ _. 0),
         authorizedRelayers = (\<lambda>_. False),
         strategyManager = 0,
         protocolFeeBps = 50,
         feeRecipient = recipient,
         vm_owner = vmDeployer,
         vm_pendingOwner = 0,
         vm_paused = False,
         vm_entered = False,
         vm_this = vmAddr,
         vaultManager = target,
         authorizedSigners = (\<lambda>_. False),
         nonces = (\<lambda>_. 0),
         maxPayloadAge = 600,
         maxExpiryDuration = 3600,
         ex_owner = exDeployer,
         ex_pendingOwner = 0,
         ex_this = exAddr,
         tokens = toks\<rparr>)"

text \<open>
  A transaction is a caller, a block timestamp and one external call. \<open>TokenActivity\<close> stands
  for anything that happens on the token contracts between two calls (mints, approvals,
  transfers by other parties): it replaces the token state and touches nothing else.
\<close>

datatype call =
    CreateVault address address StrategyParams
  | Deposit nat nat nat
  | Withdraw nat nat
  | Rebalance nat bytes
  | SetStrategyManager address
  | SetRelayerAuthorization address bool
  | SetProtocolFee nat
  | SetFeeRecipient address
  | Pause
  | Unpause
  | AttachStrategy nat address
  | VmTransferOwnership address
  | VmAcceptOwnership
  | VmRenounceOwnership
  | ExecuteRebalance nat bytes bytes
  | SetSignerAuthorization address bool
  | SetVaultManager address
  | SetMaxPayloadAge nat
  | SetMaxExpiryDuration nat
  | ExTransferOwnership address
  | ExAcceptOwnership
  | ExRenounceOwnership
  | TokenActivity erc20

record transaction =
  msg_sender :: address
  block_timestamp :: nat
  the_call :: call

definition state_of :: "error + 'r \<times> world \<Rightarrow> error + world" where
  "state_of r = (case r of Inl e \<Rightarrow> Inl e | Inr (v, w') \<Rightarrow> Inr w')"

fun execute :: "environment \<Rightarrow> address \<Rightarrow> nat \<Rightarrow> call \<Rightarrow> world \<Rightarrow> error + world" where
  "execute env s t (CreateVault a b p) w = state_of (createVault s t a b p w)"
| "execute env s t (Deposit v a b) w = state_of (deposit s v a b w)"
| "execute env s t (Withdraw v n) w = state_of (withdraw s v n w)"
| "execute env s t (Rebalance v d) w = state_of (rebalance s t v d w)"
| "execute env s t (SetStrategyManager a) w = state_of (setStrategyManager s a w)"
| "execute env s t (SetRelayerAuthorization a b) w = state_of (setRelayerAuthorization s a b w)"
| "execute env s t (SetProtocolFee n) w = state_of (setProtocolFee s n w)"
| "execute env s t (SetFeeRecipient a) w = state_of (setFeeRecipient s a w)"
| "execute env s t Pause w = state_of (pause s w)"
| "execute env s t Unpause w = state_of (unpause s w)"
| "execute env s t (AttachStrategy v a) w = state_of (attachStrategy s v a w)"
| "execute env s t (VmTransferOwnership a) w = state_of (vm_transferOwnership s a w)"
| "execute env s t VmAcceptOwnership w = state_of (vm_acceptOwnership s w)"
| "execute env s t VmRenounceOwnership w = state_of (vm_renounceOwnership s w)"
| "execute env s t (ExecuteRebalance v p g) w = state_of (executeRebalance env s t v p g w)"
| "execute env s t (SetSignerAuthorization a b) w = state_of (setSignerAuthorization s a b w)"
| "execute env s t (SetVaultManager a) w = state_of (setVaultManager s a w)"
| "execute env s t (SetMaxPayloadAge n) w = state_of (setMaxPayloadAge s n w)"
| "execute env s t (SetMaxExpiryDuration n) w = state_of (setMaxExpiryDuration s n w)"
| "execute env s t (ExTransferOwnership a) w = state_of (ex_transferOwnership s a w)"
| "execute env s t ExAcceptOwnership w = state_of (ex_acceptOwnership s w)"
| "execute env s t ExRenounceOwnership w = state_of (ex_renounceOwnership s w)"
| "execute env s t (TokenActivity toks) w = Inr (w\<lparr>tokens := toks\<rparr>)"

text \<open>A transaction that reverts leaves the state as it was before the transaction.\<close>

definition transact :: "environment \<Rightarrow> transaction \<Rightarrow> world \<Rightarrow> world" where
  "transact env tx w =
     (case execute env (msg_sender tx) (block_timestamp tx) (the_call tx) w of
        Inl e \<Rightarrow> w
      | Inr w' \<Rightarrow> w')"

definition run :: "environment \<Rightarrow> transaction list \<Rightarrow> world \<Rightarrow> world" where
  "run env txs w = fold (transact env) txs w"

section \<open>Example states\<close>

text \<open>
  A concrete deployment used to instantiate the theorems below: account 1 deploys both
  contracts (VaultManager at address 16, executor at 17, fee recipient 2), account 5 holds
  \<open>10^30\<close> units of every token and has approved the VaultManager, creates vault 1 over the
  tokens 10 and 11, and deposits \<open>10^18\<close> and \<open>6 * 10^8\<close>; accounts 6 and 17 are relayers
  and 9 is a signer.
\<close>

definition demo_tokens :: erc20 where
  "demo_tokens = \<lparr>balanceOf = (\<lambda>t a. if a = 5 then 10 ^ 30 else 0),
                  allowance = (\<lambda>t a s. if a = 5 \<and> s = 16 then 10 ^ 30 else 0)\<rparr>"

definition demo_deployed :: world where
  "demo_deployed =
     \<lparr>vaultCount = 0,
      vaults = (\<lambda>_. \<lparr>vaultId = 0, owner = 0, tokenA = 0, tokenB = 0, totalShares = 0,
                     totalTokenA = 0, totalTokenB = 0, strategy = 0, lastRebalance = 0,
                     isActive = False\<rparr>),
      vaultStrategies = (\<lambda>_. \<lparr>tickLower = 0, tickUpper = 0, rebalanceThreshold = 0,
                              autoRebalance = False\<rparr>),
      userShares = (\<lambda>_ _. 0),
      authorizedRelayers = (\<lambda>_. False),
      strategyManager = 0,
      protocolFeeBps = 50,
      feeRecipient = 2,
      vm_owner = 1,
      vm_pendingOwner = 0,
      vm_paused = False,
      vm_entered = False,
      vm_this = 16,
      vaultManager = 16,
      authorizedSigners = (\<lambda>_. False),
      nonces = (\<lambda>_. 0),
      maxPayloadAge = 600,
      maxExpiryDuration = 3600,
      ex_owner = 1,
      ex_pendingOwner = 0,
      ex_this = 17,
      tokens = demo_tokens\<rparr>"

definition demo_params :: StrategyParams where
  "demo_params = \<lparr>tickLower = - 887220, tickUpper = 887220, rebalanceThreshold = 500,
                  autoRebalance = True\<rparr>"

definition demo_vault :: world where
  "demo_vault = demo_deployed
     \<lparr>vaultCount := 1,
      vaults := (vaults demo_deployed)(1 :=
         \<lparr>vaultId = 1, owner = 5, tokenA = 10, tokenB = 11, totalShares = 0, totalTokenA = 0,
          totalTokenB = 0, strategy = 0, lastRebalance = 1000, isActive = True\<rparr>),
      vaultStrategies := (vaultStrategies demo_deployed)(1 := demo_params),
      authorizedRelayers := (authorizedRelayers demo_deployed)(6 := True, 17 := True),
      authorizedSigners := (authorizedSigners demo_deployed)(9 := True)\<rparr>"

definition demo_funded :: world where
  "demo_funded = demo_vault
     \<lparr>vaults := (vaults demo_vault)(1 := (vaults demo_vault 1)
         \<lparr>totalShares := 24494897427831, totalTokenA := 10 ^ 18, totalTokenB := 6 * 10 ^ 8\<rparr>),
      userShares := (userShares demo_vault)(1 := (userShares demo_vault 1)(5 := 24494897427831)),
      tokens :=
        \<lparr>balanceOf = (balanceOf demo_tokens)
           (10 := (balanceOf demo_tokens 10)(5 := 10 ^ 30 - 10 ^ 18, 16 := 10 ^ 18),
            11 := (balanceOf demo_tokens 11)(5 := 10 ^ 30 - 6 * 10 ^ 8, 16 := 6 * 10 ^ 8)),
         allowance = (allowance demo_tokens)
           (10 := (allowance demo_tokens 10)
                    (5 := (allowance demo_tokens 10 5)(16 := 10 ^ 30 - 10 ^ 18)),
            11 := (allowance demo_tokens 11)
                    (5 := (allowance demo_tokens 11 5)(16 := 10 ^ 30 - 6 * 10 ^ 8)))\<rparr>\<rparr>"

text \<open>
  The ABI encoding of \<open>(int24 -900000, int24 900000, uint256 pct)\<close> for \<open>pct < 256\<close>, as the
  repository's tests build it.
\<close>

definition demo_strategyData :: "nat \<Rightarrow> bytes" where
  "demo_strategyData pct =
     replicate 29 255 @ [242, 68, 96] @ replicate 29 0 @ [13, 187, 160]
       @ replicate 31 0 @ [of_nat pct]"

definition demo_rebalanced :: world where
  "demo_rebalanced = demo_funded
     \<lparr>vaultStrategies := (vaultStrategies demo_funded)(1 :=
         (vaultStrategies demo_funded 1)\<lparr>tickLower := - 900000, tickUpper := 900000\<rparr>),
      vaults := (vaults demo_funded)(1 := (vaults demo_funded 1)
         \<lparr>lastRebalance := 2000, totalTokenA := 995000000000000000, totalTokenB := 597000000\<rparr>),
      tokens := (tokens demo_funded)
        \<lparr>balanceOf := (balanceOf (tokens demo_funded))
           (10 := (balanceOf (tokens demo_funded) 10)
                    (16 := 995000000000000000, 2 := 5000000000000000),
            11 := (balanceOf (tokens demo_funded) 11)(16 := 597000000, 2 := 3000000))\<rparr>\<rparr>"

text \<open>
  A stand-in for the parts of the executor's environment that are outside the repository:
  the message \<open>[n]\<close> decodes to a payload for vault 1 with nonce \<open>n\<close>, issued at time 1000
  and expiring at 4600, the message \<open>[n, i, e]\<close> to one issued at \<open>i\<close> and expiring at \<open>e\<close>;
  the one-byte signature \<open>[a]\<close> recovers to account \<open>a\<close>.
\<close>

definition demo_payload :: "nat \<Rightarrow> nat \<Rightarrow> nat \<Rightarrow> RebalancePayload" where
  "demo_payload n i e = \<lparr>RebalancePayload.vaultId = 1, nonce = n,
                         actionData = demo_strategyData 30, issuedAt = i, expiry = e\<rparr>"

definition demo_env :: environment where
  "demo_env =
     \<lparr>abi_decode_payload = (\<lambda>bs. case bs of
          [n] \<Rightarrow> Some (demo_payload (unat n) 1000 4600)
        | [n, i, e] \<Rightarrow> Some (demo_payload (unat n) (unat i) (unat e))
        | _ \<Rightarrow> None),
      recover_signer = (\<lambda>p sg. case sg of
          [a] \<Rightarrow> Inr (ucast a)
        | _ \<Rightarrow> Inl ECDSAInvalidSignature),
      foreign_call = (\<lambda>a. True)\<rparr>"

definition demo_paused :: world where
  "demo_paused = demo_funded\<lparr>vm_paused := True\<rparr>"

definition demo_withdrawn :: world where
  "demo_withdrawn = demo_funded
     \<lparr>vaults := (vaults demo_funded)(1 := (vaults demo_funded 1)
         \<lparr>totalShares := 0, totalTokenA := 0, totalTokenB := 0\<rparr>),
      userShares := (userShares demo_funded)(1 := (userShares demo_funded 1)(5 := 0)),
      tokens := (tokens demo_funded)
        \<lparr>balanceOf := (balanceOf (tokens demo_funded))
           (10 := (balanceOf (tokens demo_funded) 10)(16 := 0, 5 := 10 ^ 30),
            11 := (balanceOf (tokens demo_funded) 11)(16 := 0, 5 := 10 ^ 30))\<rparr>\<rparr>"

definition demo_rich :: world where
  "demo_rich = demo_vault
     \<lparr>tokens := \<lparr>balanceOf = (\<lambda>t a. if a = 5 then 2 ^ 200 else 0),
                 allowance = (\<lambda>t a s. if a = 5 \<and> s = 16 then 2 ^ 200 else 0)\<rparr>\<rparr>"

text \<open>
  The executor of the funded state after its owner has pointed it at account 12, which is
  not a contract, and that state after a successful \<open>executeRebalance\<close>.
\<close>

definition demo_retargeted :: world where
  "demo_retargeted = demo_funded\<lparr>vaultManager := 12\<rparr>"

definition demo_retargeted_executed :: world where
  "demo_retargeted_executed = demo_retargeted\<lparr>nonces := (nonces demo_retargeted)(9 := 1)\<rparr>"

text \<open>
  Two relations used in the proofs about sequences of transactions: a call that leaves the
  share ledger as it is, and the invariant of the share ledger (every vault's shares add up
  to its \<open>totalShares\<close>, and a vault that was never created has no owner and no shares).
\<close>

definition ledger_kept :: "world \<Rightarrow> world \<Rightarrow> bool" where
  "ledger_kept w w' \<longleftrightarrow>
     userShares w' = userShares w \<and> vaultCount w' = vaultCount w
     \<and> (\<forall>v. owner (vaults w' v) = owner (vaults w v)
            \<and> totalShares (vaults w' v) = totalShares (vaults w v))"

definition share_conservation :: "world \<Rightarrow> bool" where
  "share_conservation w \<longleftrightarrow>
     (\<forall>v. (\<Sum>a\<in>UNIV. userShares w v a) = totalShares (vaults w v))
     \<and> (\<forall>v. vaultCount w < v \<longrightarrow> owner (vaults w v) = 0 \<and> totalShares (vaults w v) = 0)"

definition demo_executed :: world where
  "demo_executed = demo_funded
     \<lparr>vaultStrategies := (vaultStrategies demo_funded)(1 :=
         (vaultStrategies demo_funded 1)\<lparr>tickLower := - 900000, tickUpper := 900000\<rparr>),
      vaults := (vaults demo_funded)(1 := (vaults demo_funded 1)
         \<lparr>lastRebalance := 1200, totalTokenA := 995000000000000000, totalTokenB := 597000000\<rparr>),
      nonces := (nonces demo_funded)(9 := 1),
      tokens := (tokens demo_funded)
        \<lparr>balanceOf := (balanceOf (tokens demo_funded))
           (10 := (balanceOf (tokens demo_funded) 10)
                    (16 := 995000000000000000, 2 := 5000000000000000),
            11 := (balanceOf (tokens demo_funded) 11)(16 := 597000000, 2 := 3000000))\<rparr>\<rparr>"

section \<open>Basic lemmas\<close>

lemma and_then_simps [simp]:
  "and_then (Inl e) f = Inl e"
  "and_then (Inr v) f = f v"
  by (simp_all add: and_then_def)

lemma and_then_Inr_iff: "and_then r f = Inr y \<longleftrightarrow> (\<exists>v. r = Inr v \<and> f v = Inr y)"
  by (cases r) simp_all

lemma guard_Inr_iff: "(if c then Inl e else x) = Inr r \<longleftrightarrow> \<not> c \<and> x = Inr r"
  by simp

lemma checked_add_Inr_iff: "checked_add a b = Inr c \<longleftrightarrow> a + b \<le> UINT256_MAX \<and> c = a + b"
  by (auto simp: checked_add_def)

lemma checked_sub_Inr_iff: "checked_sub a b = Inr c \<longleftrightarrow> b \<le> a \<and> c = a - b"
  by (auto simp: checked_sub_def)

lemma checked_mul_Inr_iff: "checked_mul a b = Inr c \<longleftrightarrow> a * b \<le> UINT256_MAX \<and> c = a * b"
  by (auto simp: checked_mul_def)

lemma checked_div_Inr_iff: "checked_div a b = Inr c \<longleftrightarrow> b \<noteq> 0 \<and> c = a div b"
  by (auto simp: checked_div_def)

lemmas checked_Inr_iff =
  checked_add_Inr_iff checked_sub_Inr_iff checked_mul_Inr_iff checked_div_Inr_iff

lemma safeTransfer_Inr_iff:
  "safeTransfer tok dst amount w = Inr w' \<longleftrightarrow>
     (\<exists>t. erc20_move tok (vm_this w) dst amount (tokens w) = Inr t \<and> w' = w\<lparr>tokens := t\<rparr>)"
  by (auto simp: safeTransfer_def and_then_Inr_iff)

lemma safeTransferFrom_Inr_iff:
  "safeTransferFrom tok src dst amount w = Inr w' \<longleftrightarrow>
     (\<exists>t. erc20_transferFrom tok (vm_this w) src dst amount (tokens w) = Inr t
        \<and> w' = w\<lparr>tokens := t\<rparr>)"
  by (auto simp: safeTransferFrom_def and_then_Inr_iff)

lemma nonReentrant_Inr_iff:
  "nonReentrant body w = Inr (r, w') \<longleftrightarrow>
     \<not> vm_entered w
     \<and> (\<exists>w''. body (w\<lparr>vm_entered := True\<rparr>) = Inr (r, w'') \<and> w' = w''\<lparr>vm_entered := False\<rparr>)"
  by (auto simp: nonReentrant_def and_then_Inr_iff)

lemma whenNotPaused_Inr_iff:
  "whenNotPaused body w = Inr r \<longleftrightarrow> \<not> vm_paused w \<and> body w = Inr r"
  by (simp add: whenNotPaused_def)

lemma onlyOwner_Inr_iff:
  "onlyOwner sender body w = Inr r \<longleftrightarrow> vm_owner w = sender \<and> body w = Inr r"
  by (simp add: onlyOwner_def)

lemma ex_onlyOwner_Inr_iff:
  "ex_onlyOwner sender body w = Inr r \<longleftrightarrow> ex_owner w = sender \<and> body w = Inr r"
  by (simp add: ex_onlyOwner_def)

lemma replicate_numeral: "replicate (numeral n) x = x # replicate (pred_numeral n) x"
  by (simp add: numeral_eq_Suc)

lemma demo_decode_30:
  "abi_decode_strategyData (demo_strategyData 30) = Inr (- 900000, 900000, 30)"
  by (simp add: abi_decode_strategyData_def demo_strategyData_def abi_decode_int24_def
      be_uint_def replicate_numeral)

lemma demo_decode_70:
  "abi_decode_strategyData (demo_strategyData 70) = Inr (- 900000, 900000, 70)"
  by (simp add: abi_decode_strategyData_def demo_strategyData_def abi_decode_int24_def
      be_uint_def replicate_numeral)

section \<open>The square root\<close>

declare sqrt_loop.simps [simp del]

lemma four_mult_le_square_sum: "4 * a * b \<le> (a + b) * (a + (b::nat))"
proof -
  have "0 \<le> (int a - int b) * (int a - int b)" by simp
  then have "4 * int a * int b \<le> (int a + int b) * (int a + int b)"
    by (simp add: algebra_simps)
  then have "int (4 * a * b) \<le> int ((a + b) * (a + b))" by simp
  then show ?thesis by (simp only: of_nat_le_iff)
qed

lemma newton_step_above:
  assumes "0 < (y::nat)"
  shows "x < ((x div y + y) div 2 + 1) * ((x div y + y) div 2 + 1)"
proof -
  define q where "q = x div y"
  define z where "z = (q + y) div 2"
  have xlt: "x < y * (q + 1)"
    using dividend_less_times_div [of y x] assms unfolding q_def by (simp add: algebra_simps)
  have "4 * y * (q + 1) \<le> (y + (q + 1)) * (y + (q + 1))"
    by (rule four_mult_le_square_sum)
  moreover have half: "y + (q + 1) \<le> 2 * (z + 1)"
    using z_def by presburger
  have "(y + (q + 1)) * (y + (q + 1)) \<le> (2 * (z + 1)) * (2 * (z + 1))"
    by (rule mult_le_mono [OF half half])
  ultimately have "4 * y * (q + 1) \<le> 4 * ((z + 1) * (z + 1))"
    by (simp add: algebra_simps)
  moreover have "4 * x < 4 * y * (q + 1)" using xlt by simp
  ultimately have "4 * x < 4 * ((z + 1) * (z + 1))" by linarith
  then show ?thesis unfolding z_def q_def by simp
qed

lemma div_plus_divisor_le:
  assumes "0 < z" and "z \<le> (x::nat)"
  shows "x div z + z \<le> x + 1"
proof -
  define q where "q = x div z"
  have q1: "1 \<le> q" unfolding q_def using assms div_greater_zero_iff [of x z] by arith
  have "z * q \<le> x" unfolding q_def by simp
  moreover have "q + z \<le> z * q + 1"
  proof -
    obtain q' where q': "q = Suc q'" using q1 by (cases q) auto
    obtain z' where z': "z = Suc z'" using assms(1) by (cases z) auto
    show ?thesis unfolding q' z' by simp
  qed
  ultimately show ?thesis unfolding q_def by linarith
qed

lemma sqrt_loop_floor:
  assumes "0 < y" and "y \<le> x" and "x < UINT256_MAX"
    and "z = (x div y + y) div 2" and "x < (y + 1) * (y + 1)"
  shows "\<exists>r. sqrt_loop x y z = Inr r \<and> r * r \<le> x \<and> x < (r + 1) * (r + 1)"
  using assms
proof (induction x y z rule: sqrt_loop.induct)
  case (1 x y z)
  show ?case
  proof (cases "z < y")
    case False
    then have "y \<le> x div y" using "1.prems"(4) by arith
    then have "y * y \<le> y * (x div y)" by simp
    also have "\<dots> \<le> x" by simp
    finally have "y * y \<le> x" .
    with False "1.prems"(5) show ?thesis
      by (simp add: sqrt_loop.simps [of x y z])
  next
    case True
    have zpos: "0 < z"
    proof (cases "y = 1")
      case True
      then show ?thesis using "1.prems" by simp
    next
      case False
      then have "2 \<le> y" using "1.prems"(1) by arith
      then show ?thesis using "1.prems"(4) by arith
    qed
    have zx: "z \<le> x" using True "1.prems"(2) by simp
    have nooverflow: "\<not> UINT256_MAX < x div z + z"
      using div_plus_divisor_le [OF zpos zx] "1.prems"(3) by simp
    have above: "x < (z + 1) * (z + 1)"
      using newton_step_above [OF "1.prems"(1), of x] "1.prems"(4) by simp
    have "\<exists>r. sqrt_loop x z ((x div z + z) div 2) = Inr r \<and> r * r \<le> x \<and> x < (r + 1) * (r + 1)"
      using "1.IH" [OF True _ nooverflow zpos zx "1.prems"(3) refl above] zpos by simp
    then show ?thesis
      using True zpos nooverflow by (simp add: sqrt_loop.simps [of x y z])
  qed
qed

lemma sqrt_sol_floor:
  assumes "x < UINT256_MAX"
  shows "\<exists>r. sqrt_sol x = Inr r \<and> r * r \<le> x \<and> x < (r + 1) * (r + 1)"
proof (cases "x = 0")
  case True
  then show ?thesis by (simp add: sqrt_sol_def)
next
  case False
  then have pos: "0 < x" by simp
  have "x < (x + 1) * (x + 1)" by (simp add: algebra_simps)
  from sqrt_loop_floor [OF pos le_refl assms _ this, of "(x + 1) div 2"] pos
  have "\<exists>r. sqrt_loop x x ((x + 1) div 2) = Inr r \<and> r * r \<le> x \<and> x < (r + 1) * (r + 1)"
    by simp
  then show ?thesis using False assms by (simp add: sqrt_sol_def checked_add_def)
qed

lemma floor_sqrt_unique:
  assumes "r * r \<le> x" and "x < (r + 1) * (r + 1)" and "s * s \<le> x" and "x < (s + 1) * (s + (1::nat))"
  shows "r = s"
proof (rule ccontr)
  assume "r \<noteq> s"
  then consider "r + 1 \<le> s" | "s + 1 \<le> r" by arith
  then show False
  proof cases
    case 1
    have "(r + 1) * (r + 1) \<le> s * s" by (rule mult_le_mono [OF 1 1])
    with assms show False by linarith
  next
    case 2
    have "(s + 1) * (s + 1) \<le> r * r" by (rule mult_le_mono [OF 2 2])
    with assms show False by linarith
  qed
qed

lemma sqrt_sol_eq:
  assumes "x < UINT256_MAX" and "r * r \<le> x" and "x < (r + 1) * (r + 1)"
  shows "sqrt_sol x = Inr r"
proof -
  obtain s where s: "sqrt_sol x = Inr s" "s * s \<le> x" "x < (s + 1) * (s + 1)"
    using sqrt_sol_floor [OF assms(1)] by blast
  have "s = r" using floor_sqrt_unique [OF s(2,3) assms(2,3)] .
  with s(1) show ?thesis by simp
qed

lemma sqrt_sol_max: "sqrt_sol UINT256_MAX = Inl PanicArithmetic"
  by (simp add: sqrt_sol_def checked_add_def UINT256_MAX_def)


section \<open>The example states are reached by the contracts\<close>

lemma demo_deployed_by_constructors: "deploy 1 2 16 1 16 17 demo_tokens = Inr demo_deployed"
  by (simp add: deploy_def demo_deployed_def)

lemma demo_vault_reached:
  "run demo_env
     [\<lparr>msg_sender = 5, block_timestamp = 1000, the_call = CreateVault 10 11 demo_params\<rparr>,
      \<lparr>msg_sender = 1, block_timestamp = 1001, the_call = SetRelayerAuthorization 6 True\<rparr>,
      \<lparr>msg_sender = 1, block_timestamp = 1001, the_call = SetRelayerAuthorization 17 True\<rparr>,
      \<lparr>msg_sender = 1, block_timestamp = 1002, the_call = SetSignerAuthorization 9 True\<rparr>]
     demo_deployed = demo_vault"
  by (simp add: run_def transact_def state_of_def createVault_def whenNotPaused_def
      demo_deployed_def demo_vault_def checked_add_def UINT256_MAX_def
      setRelayerAuthorization_def onlyOwner_def setSignerAuthorization_def ex_onlyOwner_def)

lemma demo_first_deposit_shares:
  "deposit_shares (vaults demo_vault 1) (10 ^ 18) (6 * 10 ^ 8) = Inr 24494897427831"
proof -
  have "sqrt_sol 600000000000000000000000000 = Inr 24494897427831"
    by (rule sqrt_sol_eq) (simp_all add: UINT256_MAX_def)
  then show ?thesis
    by (simp add: deposit_shares_def demo_vault_def demo_deployed_def checked_mul_def
        UINT256_MAX_def)
qed

lemma demo_deposit:
  "deposit 5 1 (10 ^ 18) (6 * 10 ^ 8) demo_vault = Inr (24494897427831, demo_funded)"
  using demo_first_deposit_shares
  by (simp add: deposit_def nonReentrant_def whenNotPaused_def demo_funded_def demo_vault_def
      demo_deployed_def demo_tokens_def MIN_DEPOSIT_def safeTransferFrom_def
      erc20_transferFrom_def erc20_spendAllowance_def erc20_move_def checked_add_def UINT256_MAX_def Let_def)

lemma demo_rebalance:
  "rebalance 6 2000 1 (demo_strategyData 30) demo_funded = Inr ((), demo_rebalanced)"
  by (simp add: rebalance_def nonReentrant_def whenNotPaused_def demo_decode_30
      demo_rebalanced_def demo_funded_def demo_vault_def
      demo_deployed_def demo_tokens_def safeTransfer_def
      erc20_move_def checked_mul_def checked_sub_def UINT256_MAX_def Let_def)

section \<open>What a successful \<open>rebalance\<close> does\<close>

lemma fee_block_Inr_iff:
  "(if 0 < fee then and_then (checked_sub tt fee) (\<lambda>ta. safeTransfer tok rcp fee (g ta))
    else Inr w1) = Inr w2
   \<longleftrightarrow> (if 0 < fee
        then fee \<le> tt
             \<and> (\<exists>t. erc20_move tok (vm_this (g (tt - fee))) rcp fee (tokens (g (tt - fee))) = Inr t
                     \<and> w2 = (g (tt - fee))\<lparr>tokens := t\<rparr>)
        else w2 = w1)"
  by (auto simp: and_then_Inr_iff checked_sub_Inr_iff safeTransfer_Inr_iff)

lemma rebalance_effect:
  assumes "rebalance sender now vid d w = Inr (u, w')"
  shows "\<not> vm_entered w \<and> \<not> vm_paused w
    \<and> (authorizedRelayers w sender \<or> sender = vm_owner w)
    \<and> owner (vaults w vid) \<noteq> 0 \<and> isActive (vaults w vid)
    \<and> totalTokenA (vaults w vid) * protocolFeeBps w div 10000 \<le> totalTokenA (vaults w vid)
    \<and> totalTokenB (vaults w vid) * protocolFeeBps w div 10000 \<le> totalTokenB (vaults w vid)
    \<and> vaults w' = (vaults w)(vid := (vaults w vid)
          \<lparr>lastRebalance := now,
           totalTokenA := totalTokenA (vaults w vid)
              - totalTokenA (vaults w vid) * protocolFeeBps w div 10000,
           totalTokenB := totalTokenB (vaults w vid)
              - totalTokenB (vaults w vid) * protocolFeeBps w div 10000\<rparr>)
    \<and> userShares w' = userShares w \<and> vaultCount w' = vaultCount w
    \<and> nonces w' = nonces w \<and> authorizedSigners w' = authorizedSigners w
    \<and> maxPayloadAge w' = maxPayloadAge w \<and> vaultManager w' = vaultManager w
    \<and> vm_this w' = vm_this w \<and> ex_this w' = ex_this w
    \<and> protocolFeeBps w' = protocolFeeBps w \<and> vm_entered w' = vm_entered w"
  using assms unfolding rebalance_def
  apply (simp add: guard_Inr_iff nonReentrant_Inr_iff whenNotPaused_Inr_iff and_then_Inr_iff
      checked_Inr_iff fee_block_Inr_iff Let_def split_paired_Ex)
  apply (elim exE conjE)
  apply (simp split: if_splits)
     apply (elim exE conjE, simp)+
  done

lemma rebalance_tokens:
  assumes "rebalance sender now vid d w = Inr (u, w')"
  shows "\<exists>tA. (if 0 < totalTokenA (vaults w vid) * protocolFeeBps w div 10000
               then erc20_move (tokenA (vaults w vid)) (vm_this w) (feeRecipient w)
                      (totalTokenA (vaults w vid) * protocolFeeBps w div 10000) (tokens w) = Inr tA
               else tA = tokens w)
            \<and> (if 0 < totalTokenB (vaults w vid) * protocolFeeBps w div 10000
               then erc20_move (tokenB (vaults w vid)) (vm_this w) (feeRecipient w)
                      (totalTokenB (vaults w vid) * protocolFeeBps w div 10000) tA = Inr (tokens w')
               else tokens w' = tA)"
  using assms unfolding rebalance_def
  apply (simp add: guard_Inr_iff nonReentrant_Inr_iff whenNotPaused_Inr_iff and_then_Inr_iff
      checked_Inr_iff fee_block_Inr_iff Let_def split_paired_Ex)
  apply (elim exE conjE)
  apply (simp split: if_splits)
     apply (elim exE conjE, simp)+
  done

lemma rebalance_strategy:
  assumes "rebalance sender now vid d w = Inr (u, w')"
  shows "\<exists>lo hi pct. abi_decode_strategyData d = Inr (lo, hi, pct)
     \<and> vaultStrategies w' = (vaultStrategies w)(vid :=
           (vaultStrategies w vid)\<lparr>tickLower := lo, tickUpper := hi\<rparr>)"
  using assms unfolding rebalance_def
  apply (simp add: guard_Inr_iff nonReentrant_Inr_iff whenNotPaused_Inr_iff and_then_Inr_iff
      checked_Inr_iff fee_block_Inr_iff Let_def split_paired_Ex)
  apply (elim exE conjE)
  apply (simp split: if_splits)
     apply (elim exE conjE, simp)+
  done

section \<open>Claims about \<open>rebalance\<close> and \<open>setProtocolFee\<close>\<close>

text \<open>
  C7 (as amended). A direct call of \<open>rebalance\<close> by an account that is neither an authorized
  relayer nor the owner always reverts, whatever the vault and the action data, and the state
  after the transaction is the state before it. The revert reason is \<open>UnauthorizedRelayer\<close>
  when the contract is not paused; while it is paused the \<open>whenNotPaused\<close> modifier runs first
  and the reason is \<open>EnforcedPause\<close> (and inside a guarded call the reentrancy guard answers
  first).
\<close>

theorem rebalance_unauthorized_fails:
  assumes "\<not> authorizedRelayers w sender" and "sender \<noteq> vm_owner w"
  shows "rebalance sender now vid strategyData w =
           Inl (if vm_entered w then ReentrancyGuardReentrantCall
                else if vm_paused w then EnforcedPause else UnauthorizedRelayer)
         \<and> transact env \<lparr>msg_sender = sender, block_timestamp = now,
                          the_call = Rebalance vid strategyData\<rparr> w = w"
  using assms
  by (simp add: rebalance_def nonReentrant_def whenNotPaused_def transact_def state_of_def)

theorem rebalance_unauthorized_fails_witness:
  "\<not> authorizedRelayers demo_funded 7 \<and> 7 \<noteq> vm_owner demo_funded
   \<and> rebalance 7 2000 1 (demo_strategyData 30) demo_funded = Inl UnauthorizedRelayer
   \<and> transact demo_env \<lparr>msg_sender = 7, block_timestamp = 2000,
         the_call = Rebalance 1 (demo_strategyData 30)\<rparr> demo_funded = demo_funded"
  using rebalance_unauthorized_fails [of demo_funded 7 2000 1 "demo_strategyData 30" demo_env]
  by (simp add: demo_funded_def demo_vault_def demo_deployed_def)

text \<open>
  C7 as stated fails: on the paused contract the same unauthorized call reverts with
  \<open>EnforcedPause\<close>, not with \<open>UnauthorizedRelayer\<close>.
\<close>

theorem rebalance_unauthorized_paused_counterexample:
  "\<not> authorizedRelayers (demo_funded\<lparr>vm_paused := True\<rparr>) 7
   \<and> 7 \<noteq> vm_owner (demo_funded\<lparr>vm_paused := True\<rparr>)
   \<and> rebalance 7 2000 1 (demo_strategyData 30) (demo_funded\<lparr>vm_paused := True\<rparr>)
       = Inl EnforcedPause
   \<and> rebalance 7 2000 1 (demo_strategyData 30) (demo_funded\<lparr>vm_paused := True\<rparr>)
       \<noteq> Inl UnauthorizedRelayer"
  by (simp add: rebalance_def nonReentrant_def whenNotPaused_def demo_funded_def demo_vault_def
      demo_deployed_def)

text \<open>
  C9. Two \<open>rebalance\<close> calls from the same state whose action data decode to the same pair of
  ticks and to different \<open>reallocatePct\<close> values have the same outcome: the same revert, or
  the same resulting state in every field (balances, strategy parameters, \<open>lastRebalance\<close>,
  shares). Events are not part of the state.
\<close>

theorem reallocatePct_is_dead:
  assumes "abi_decode_strategyData d1 = Inr (lo, hi, pct1)"
    and "abi_decode_strategyData d2 = Inr (lo, hi, pct2)"
    and "pct1 \<noteq> pct2"
  shows "rebalance sender now vid d1 w = rebalance sender now vid d2 w"
  using assms by (simp add: rebalance_def cong: if_cong)

theorem reallocatePct_is_dead_witness:
  "abi_decode_strategyData (demo_strategyData 30) = Inr (- 900000, 900000, 30)
   \<and> abi_decode_strategyData (demo_strategyData 70) = Inr (- 900000, 900000, 70)
   \<and> (30::nat) \<noteq> 70
   \<and> rebalance 6 2000 1 (demo_strategyData 30) demo_funded
       = rebalance 6 2000 1 (demo_strategyData 70) demo_funded
   \<and> rebalance 6 2000 1 (demo_strategyData 70) demo_funded = Inr ((), demo_rebalanced)"
  using reallocatePct_is_dead [OF demo_decode_30 demo_decode_70, of 6 2000 1 demo_funded]
    demo_rebalance
  by (simp add: demo_decode_30 demo_decode_70)

text \<open>
  C8. \<open>setProtocolFee\<close> reverts for every value above 1000, whoever calls, and for the owner
  and a value of at most 1000 it succeeds and stores the value. A successful \<open>rebalance\<close>
  lowers \<open>totalTokenA\<close> and \<open>totalTokenB\<close> of the vault by exactly
  \<open>floor (totalTokenX * protocolFeeBps / 10000)\<close>, which is at most \<open>protocolFeeBps / 10000\<close>
  of the balance; it sends that amount of each token from the VaultManager to the fee
  recipient, and leaves the token alone when the amount is zero.
\<close>

theorem protocol_fee_ceiling_and_deduction:
  "(1000 < tooHigh \<longrightarrow> (\<exists>e. setProtocolFee anyone tooHigh w = Inl e))
   \<and> (sender = vm_owner w \<and> newFeeBps \<le> 1000 \<longrightarrow>
        setProtocolFee sender newFeeBps w = Inr ((), w\<lparr>protocolFeeBps := newFeeBps\<rparr>))
   \<and> (rebalance relayer now vid d w = Inr ((), w') \<longrightarrow>
        totalTokenA (vaults w' vid)
          = totalTokenA (vaults w vid) - totalTokenA (vaults w vid) * protocolFeeBps w div 10000
      \<and> totalTokenB (vaults w' vid)
          = totalTokenB (vaults w vid) - totalTokenB (vaults w vid) * protocolFeeBps w div 10000
      \<and> totalTokenA (vaults w vid) * protocolFeeBps w div 10000 \<le> totalTokenA (vaults w vid)
      \<and> totalTokenB (vaults w vid) * protocolFeeBps w div 10000 \<le> totalTokenB (vaults w vid)
      \<and> (totalTokenA (vaults w vid) * protocolFeeBps w div 10000) * 10000
           \<le> totalTokenA (vaults w vid) * protocolFeeBps w
      \<and> (totalTokenB (vaults w vid) * protocolFeeBps w div 10000) * 10000
           \<le> totalTokenB (vaults w vid) * protocolFeeBps w
      \<and> (\<exists>tA. (if 0 < totalTokenA (vaults w vid) * protocolFeeBps w div 10000
                then erc20_move (tokenA (vaults w vid)) (vm_this w) (feeRecipient w)
                       (totalTokenA (vaults w vid) * protocolFeeBps w div 10000) (tokens w)
                     = Inr tA
                else tA = tokens w)
             \<and> (if 0 < totalTokenB (vaults w vid) * protocolFeeBps w div 10000
                then erc20_move (tokenB (vaults w vid)) (vm_this w) (feeRecipient w)
                       (totalTokenB (vaults w vid) * protocolFeeBps w div 10000) tA
                     = Inr (tokens w')
                else tokens w' = tA)))"
proof (intro conjI impI)
  assume "1000 < tooHigh"
  then show "\<exists>e. setProtocolFee anyone tooHigh w = Inl e"
    by (simp add: setProtocolFee_def onlyOwner_def)
next
  assume "sender = vm_owner w \<and> newFeeBps \<le> 1000"
  then show "setProtocolFee sender newFeeBps w = Inr ((), w\<lparr>protocolFeeBps := newFeeBps\<rparr>)"
    by (simp add: setProtocolFee_def onlyOwner_def)
next
  assume ok: "rebalance relayer now vid d w = Inr ((), w')"
  note eff = rebalance_effect [OF ok]
  from eff show "totalTokenA (vaults w' vid)
      = totalTokenA (vaults w vid) - totalTokenA (vaults w vid) * protocolFeeBps w div 10000"
    by simp
  from eff show "totalTokenB (vaults w' vid)
      = totalTokenB (vaults w vid) - totalTokenB (vaults w vid) * protocolFeeBps w div 10000"
    by simp
  from eff show "totalTokenA (vaults w vid) * protocolFeeBps w div 10000
      \<le> totalTokenA (vaults w vid)"
    by simp
  from eff show "totalTokenB (vaults w vid) * protocolFeeBps w div 10000
      \<le> totalTokenB (vaults w vid)"
    by simp
  show "(totalTokenA (vaults w vid) * protocolFeeBps w div 10000) * 10000
      \<le> totalTokenA (vaults w vid) * protocolFeeBps w"
    by simp
  show "(totalTokenB (vaults w vid) * protocolFeeBps w div 10000) * 10000
      \<le> totalTokenB (vaults w vid) * protocolFeeBps w"
    by simp
  show "\<exists>tA. (if 0 < totalTokenA (vaults w vid) * protocolFeeBps w div 10000
                then erc20_move (tokenA (vaults w vid)) (vm_this w) (feeRecipient w)
                       (totalTokenA (vaults w vid) * protocolFeeBps w div 10000) (tokens w)
                     = Inr tA
                else tA = tokens w)
             \<and> (if 0 < totalTokenB (vaults w vid) * protocolFeeBps w div 10000
                then erc20_move (tokenB (vaults w vid)) (vm_this w) (feeRecipient w)
                       (totalTokenB (vaults w vid) * protocolFeeBps w div 10000) tA
                     = Inr (tokens w')
                else tokens w' = tA)"
    by (rule rebalance_tokens [OF ok])
qed

theorem protocol_fee_ceiling_and_deduction_witness:
  "(1000::nat) < 1001 \<and> (\<exists>e. setProtocolFee 1 1001 demo_funded = Inl e)
   \<and> 1 = vm_owner demo_funded \<and> (100::nat) \<le> 1000
   \<and> setProtocolFee 1 100 demo_funded = Inr ((), demo_funded\<lparr>protocolFeeBps := 100\<rparr>)
   \<and> rebalance 6 2000 1 (demo_strategyData 30) demo_funded = Inr ((), demo_rebalanced)
   \<and> totalTokenA (vaults demo_rebalanced 1) = 10 ^ 18 - 10 ^ 18 * 50 div 10000
   \<and> totalTokenB (vaults demo_rebalanced 1) = 6 * 10 ^ 8 - 6 * 10 ^ 8 * 50 div 10000"
  using protocol_fee_ceiling_and_deduction
    [of 1001 1 demo_funded 1 100 6 2000 1 "demo_strategyData 30" demo_rebalanced]
    demo_rebalance
  by (simp add: demo_funded_def demo_vault_def demo_deployed_def)

section \<open>Claims about \<open>withdraw\<close>\<close>

text \<open>
  C10. On an existing vault with \<open>totalShares = 0\<close>, \<open>withdraw(vaultId, 0)\<close> passes the
  \<open>InsufficientShares\<close> guard for every caller (no balance is below zero) and then divides by
  \<open>totalShares\<close>: it reverts with the division-by-zero panic, not with a named error and not
  by returning \<open>(0, 0)\<close>.
\<close>

theorem withdraw_zero_of_empty_vault_panics:
  assumes "owner (vaults w vid) \<noteq> 0" and "totalShares (vaults w vid) = 0"
    and "\<not> vm_entered w"
  shows "withdraw sender vid 0 w = Inl PanicDivisionByZero"
  using assms
  by (simp add: withdraw_def nonReentrant_def checked_mul_def checked_div_def)

theorem withdraw_zero_of_empty_vault_panics_witness:
  "owner (vaults demo_vault 1) \<noteq> 0 \<and> totalShares (vaults demo_vault 1) = 0
   \<and> \<not> vm_entered demo_vault
   \<and> withdraw 5 1 0 demo_vault = Inl PanicDivisionByZero"
  using withdraw_zero_of_empty_vault_panics [of demo_vault 1 5]
  by (simp add: demo_vault_def demo_deployed_def)

section \<open>What \<open>executeRebalance\<close> does\<close>

lemma call_rebalance_frame:
  assumes "call_rebalance env target now vid data w = (ok, w')"
  shows "nonces w' = nonces w \<and> authorizedSigners w' = authorizedSigners w
    \<and> maxPayloadAge w' = maxPayloadAge w \<and> vaultManager w' = vaultManager w
    \<and> userShares w' = userShares w \<and> vaultCount w' = vaultCount w
    \<and> vm_this w' = vm_this w \<and> ex_this w' = ex_this w
    \<and> (\<forall>v. owner (vaults w' v) = owner (vaults w v)
           \<and> totalShares (vaults w' v) = totalShares (vaults w v))"
proof (cases "target = vm_this w")
  case False
  with assms show ?thesis by (simp add: call_rebalance_def)
next
  case True
  show ?thesis
  proof (cases "rebalance (ex_this w) now vid data w")
    case (Inl e)
    with True assms show ?thesis by (simp add: call_rebalance_def)
  next
    case (Inr r)
    obtain u w2 where r: "r = (u, w2)" by (cases r)
    from Inr r True assms have w': "w' = w2" by (simp add: call_rebalance_def)
    from rebalance_effect [OF Inr [unfolded r]] show ?thesis unfolding w' by simp
  qed
qed

lemma executeRebalance_Inr_iff:
  "executeRebalance env sender now vid signedPayload signature w = Inr (u, w') \<longleftrightarrow>
     (\<exists>p signer. abi_decode_payload env signedPayload = Some p
        \<and> RebalancePayload.vaultId p = vid \<and> now \<le> expiry p \<and> issuedAt p \<le> now
        \<and> issuedAt p + maxPayloadAge w \<le> UINT256_MAX \<and> now \<le> issuedAt p + maxPayloadAge w
        \<and> recover_signer env p signature = Inr signer
        \<and> authorizedSigners w signer \<and> nonces w signer = nonce p
        \<and> nonces w signer + 1 \<le> UINT256_MAX
        \<and> call_rebalance env (vaultManager w) now vid (actionData p)
             (w\<lparr>nonces := (nonces w)(signer := nonces w signer + 1)\<rparr>) = (True, w'))"
  unfolding executeRebalance_def
  by (auto simp: guard_Inr_iff and_then_Inr_iff checked_add_Inr_iff Let_def case_prod_beta
      prod_eq_iff split: option.splits)

section \<open>Claims about \<open>executeRebalance\<close>\<close>

text \<open>
  C3 (as amended). For a payload that decodes and whose \<open>vaultId\<close> is the one of the call:
  if \<open>now > expiry\<close> the call reverts with \<open>PayloadExpired\<close>, whatever the signature; if
  \<open>now \<le> expiry\<close> and \<open>now < issuedAt\<close> it reverts with \<open>PayloadTooOld\<close>; if \<open>now \<le> expiry\<close>
  and \<open>issuedAt + maxPayloadAge < now\<close> it reverts with \<open>PayloadTooOld\<close>. In each case the
  state after the transaction is the state before it. (The three times are separate
  variables; \<open>now \<le> UINT256_MAX\<close> says that the timestamp is a \<open>uint256\<close>.)
\<close>

theorem payload_temporal_bounds:
  assumes "abi_decode_payload env signedPayload = Some p"
    and "RebalancePayload.vaultId p = vid"
  shows "(expiry p < now1 \<longrightarrow>
            executeRebalance env sender now1 vid signedPayload signature w = Inl PayloadExpired
          \<and> transact env \<lparr>msg_sender = sender, block_timestamp = now1,
               the_call = ExecuteRebalance vid signedPayload signature\<rparr> w = w)
       \<and> (now2 \<le> expiry p \<and> now2 < issuedAt p \<longrightarrow>
            executeRebalance env sender now2 vid signedPayload signature w = Inl PayloadTooOld
          \<and> transact env \<lparr>msg_sender = sender, block_timestamp = now2,
               the_call = ExecuteRebalance vid signedPayload signature\<rparr> w = w)
       \<and> (now3 \<le> expiry p \<and> issuedAt p + maxPayloadAge w < now3 \<and> now3 \<le> UINT256_MAX \<longrightarrow>
            executeRebalance env sender now3 vid signedPayload signature w = Inl PayloadTooOld
          \<and> transact env \<lparr>msg_sender = sender, block_timestamp = now3,
               the_call = ExecuteRebalance vid signedPayload signature\<rparr> w = w)"
  using assms
  by (simp add: executeRebalance_def transact_def state_of_def checked_add_def)

theorem payload_temporal_bounds_witness:
  "abi_decode_payload demo_env [0] = Some (demo_payload 0 1000 4600)
   \<and> RebalancePayload.vaultId (demo_payload 0 1000 4600) = 1
   \<and> expiry (demo_payload 0 1000 4600) < 5000
   \<and> executeRebalance demo_env 6 5000 1 [0] [9] demo_funded = Inl PayloadExpired
   \<and> 900 \<le> expiry (demo_payload 0 1000 4600) \<and> 900 < issuedAt (demo_payload 0 1000 4600)
   \<and> executeRebalance demo_env 6 900 1 [0] [9] demo_funded = Inl PayloadTooOld
   \<and> 2000 \<le> expiry (demo_payload 0 1000 4600)
   \<and> issuedAt (demo_payload 0 1000 4600) + maxPayloadAge demo_funded < 2000
   \<and> 2000 \<le> UINT256_MAX
   \<and> executeRebalance demo_env 6 2000 1 [0] [9] demo_funded = Inl PayloadTooOld
   \<and> transact demo_env \<lparr>msg_sender = 6, block_timestamp = 2000,
         the_call = ExecuteRebalance 1 [0] [9]\<rparr> demo_funded = demo_funded"
proof -
  have dec: "abi_decode_payload demo_env [0] = Some (demo_payload 0 1000 4600)"
    by (simp add: demo_env_def)
  have vid: "RebalancePayload.vaultId (demo_payload 0 1000 4600) = 1"
    by (simp add: demo_payload_def)
  have age: "maxPayloadAge demo_funded = 600"
    by (simp add: demo_funded_def demo_vault_def demo_deployed_def)
  have times: "expiry (demo_payload 0 1000 4600) = 4600" "issuedAt (demo_payload 0 1000 4600) = 1000"
    by (simp_all add: demo_payload_def)
  have big: "2000 \<le> UINT256_MAX" by (simp add: UINT256_MAX_def)
  show ?thesis
    using payload_temporal_bounds [OF dec vid, where ?now1.0 = 5000 and sender = 6
        and signature = "[9]" and w = demo_funded and ?now2.0 = 900 and ?now3.0 = 2000] dec vid big
    by (simp add: age times)
qed

text \<open>
  C3 as stated fails in its second clause: the expiry check comes first, so a payload with
  \<open>expiry < now < issuedAt\<close> reverts with \<open>PayloadExpired\<close>, not \<open>PayloadTooOld\<close>.
\<close>

theorem payload_not_yet_issued_but_expired_counterexample:
  "abi_decode_payload demo_env [0, 100, 50] = Some (demo_payload 0 100 50)
   \<and> RebalancePayload.vaultId (demo_payload 0 100 50) = 1
   \<and> 75 < issuedAt (demo_payload 0 100 50)
   \<and> executeRebalance demo_env 6 75 1 [0, 100, 50] [9] demo_funded = Inl PayloadExpired
   \<and> executeRebalance demo_env 6 75 1 [0, 100, 50] [9] demo_funded \<noteq> Inl PayloadTooOld"
  by (simp add: executeRebalance_def demo_env_def demo_payload_def)

text \<open>
  C1 (as amended). Take a call of \<open>executeRebalance\<close> that passes every check before the
  downstream call (the payload decodes, names the vault, is within its time window, and is
  signed by an authorized signer whose stored nonce it carries; neither
  \<open>issuedAt + maxPayloadAge\<close> nor the incremented nonce overflows), while the executor's
  \<open>vaultManager\<close> is the address of the VaultManager. If the downstream \<open>rebalance\<close>, run on
  the state with the nonce already incremented, reverts, then \<open>executeRebalance\<close> reverts
  with \<open>ExecutionFailed\<close> and the state after the transaction is the state before it, nonce
  included. In every case the state after the transaction is either the state before it, or
  the state the downstream \<open>rebalance\<close> returned, in which the signer's nonce is one higher:
  never a state with only one of the two.
\<close>

theorem executeRebalance_atomic:
  assumes "abi_decode_payload env signedPayload = Some p"
    and "RebalancePayload.vaultId p = vid"
    and "now \<le> expiry p" and "issuedAt p \<le> now"
    and "now \<le> issuedAt p + maxPayloadAge w"
    and "issuedAt p + maxPayloadAge w \<le> UINT256_MAX"
    and "recover_signer env p signature = Inr signer"
    and "authorizedSigners w signer" and "nonces w signer = nonce p"
    and "nonces w signer < UINT256_MAX"
    and "vaultManager w = vm_this w"
  shows "(rebalance (ex_this w) now vid (actionData p)
            (w\<lparr>nonces := (nonces w)(signer := nonces w signer + 1)\<rparr>) = Inl e \<longrightarrow>
            executeRebalance env sender now vid signedPayload signature w = Inl ExecutionFailed
          \<and> transact env \<lparr>msg_sender = sender, block_timestamp = now,
               the_call = ExecuteRebalance vid signedPayload signature\<rparr> w = w)
       \<and> (transact env \<lparr>msg_sender = sender, block_timestamp = now,
               the_call = ExecuteRebalance vid signedPayload signature\<rparr> w = w
          \<or> (\<exists>w2. rebalance (ex_this w) now vid (actionData p)
                     (w\<lparr>nonces := (nonces w)(signer := nonces w signer + 1)\<rparr>) = Inr ((), w2)
                \<and> executeRebalance env sender now vid signedPayload signature w = Inr ((), w2)
                \<and> transact env \<lparr>msg_sender = sender, block_timestamp = now,
                     the_call = ExecuteRebalance vid signedPayload signature\<rparr> w = w2
                \<and> nonces w2 signer = nonces w signer + 1))"
proof -
  let ?w1 = "w\<lparr>nonces := (nonces w)(signer := nonces w signer + 1)\<rparr>"
  let ?tx = "\<lparr>msg_sender = sender, block_timestamp = now,
               the_call = ExecuteRebalance vid signedPayload signature\<rparr>"
  have red: "executeRebalance env sender now vid signedPayload signature w =
      (case rebalance (ex_this w) now vid (actionData p) ?w1 of
         Inl e \<Rightarrow> Inl ExecutionFailed | Inr (u, w2) \<Rightarrow> Inr ((), w2))"
    using assms
    by (simp add: executeRebalance_def checked_add_def call_rebalance_def Let_def
        split: sum.splits prod.splits)
  show ?thesis
  proof (cases "rebalance (ex_this w) now vid (actionData p) ?w1")
    case (Inl e')
    then show ?thesis using red by (simp add: transact_def state_of_def)
  next
    case (Inr r)
    obtain u w2 where r: "r = (u, w2)" by (cases r)
    from rebalance_effect [OF Inr [unfolded r]]
    have "nonces w2 = nonces ?w1" by simp
    then have "nonces w2 signer = nonces w signer + 1" by simp
    then show ?thesis using red Inr r by (simp add: transact_def state_of_def)
  qed
qed

theorem executeRebalance_atomic_witness:
  "abi_decode_payload demo_env [0] = Some (demo_payload 0 1000 4600)
   \<and> RebalancePayload.vaultId (demo_payload 0 1000 4600) = 1
   \<and> 1200 \<le> expiry (demo_payload 0 1000 4600) \<and> issuedAt (demo_payload 0 1000 4600) \<le> 1200
   \<and> 1200 \<le> issuedAt (demo_payload 0 1000 4600) + maxPayloadAge demo_paused
   \<and> issuedAt (demo_payload 0 1000 4600) + maxPayloadAge demo_paused \<le> UINT256_MAX
   \<and> recover_signer demo_env (demo_payload 0 1000 4600) [9] = Inr 9
   \<and> authorizedSigners demo_paused 9
   \<and> nonces demo_paused 9 = nonce (demo_payload 0 1000 4600)
   \<and> nonces demo_paused 9 < UINT256_MAX
   \<and> vaultManager demo_paused = vm_this demo_paused
   \<and> rebalance (ex_this demo_paused) 1200 1 (actionData (demo_payload 0 1000 4600))
        (demo_paused\<lparr>nonces := (nonces demo_paused)(9 := nonces demo_paused 9 + 1)\<rparr>)
        = Inl EnforcedPause
   \<and> executeRebalance demo_env 6 1200 1 [0] [9] demo_paused = Inl ExecutionFailed
   \<and> transact demo_env \<lparr>msg_sender = 6, block_timestamp = 1200,
         the_call = ExecuteRebalance 1 [0] [9]\<rparr> demo_paused = demo_paused"
proof -
  have dec: "abi_decode_payload demo_env [0] = Some (demo_payload 0 1000 4600)"
    by (simp add: demo_env_def)
  have vid: "RebalancePayload.vaultId (demo_payload 0 1000 4600) = 1"
    by (simp add: demo_payload_def)
  have t1: "1200 \<le> expiry (demo_payload 0 1000 4600)"
    and t2: "issuedAt (demo_payload 0 1000 4600) \<le> 1200"
    by (simp_all add: demo_payload_def)
  have t3: "1200 \<le> issuedAt (demo_payload 0 1000 4600) + maxPayloadAge demo_paused"
    and t4: "issuedAt (demo_payload 0 1000 4600) + maxPayloadAge demo_paused \<le> UINT256_MAX"
    by (simp_all add: demo_payload_def demo_paused_def demo_funded_def demo_vault_def
        demo_deployed_def UINT256_MAX_def)
  have rec: "recover_signer demo_env (demo_payload 0 1000 4600) [9] = Inr 9"
    by (simp add: demo_env_def)
  have auth: "authorizedSigners demo_paused 9"
    and non: "nonces demo_paused 9 = nonce (demo_payload 0 1000 4600)"
    and room: "nonces demo_paused 9 < UINT256_MAX"
    and tgt: "vaultManager demo_paused = vm_this demo_paused"
    by (simp_all add: demo_payload_def demo_paused_def demo_funded_def demo_vault_def
        demo_deployed_def UINT256_MAX_def)
  have fails: "rebalance (ex_this demo_paused) 1200 1 (actionData (demo_payload 0 1000 4600))
        (demo_paused\<lparr>nonces := (nonces demo_paused)(9 := nonces demo_paused 9 + 1)\<rparr>)
        = Inl EnforcedPause"
    by (simp add: rebalance_def nonReentrant_def whenNotPaused_def demo_paused_def
        demo_funded_def demo_vault_def demo_deployed_def)
  show ?thesis
    using executeRebalance_atomic [OF dec vid t1 t2 t3 t4 rec auth non room tgt,
        where e = EnforcedPause and sender = 6]
      dec vid t1 t2 t3 t4 rec auth non room tgt fails
    by simp
qed

text \<open>
  C1 as stated fails when the executor points elsewhere. The owner of the executor calls
  \<open>setVaultManager(12)\<close>; account 12 has no code, so the low-level call reports success.
  The signed payload then goes through: the signer's nonce advances, and neither the vault
  nor the strategy nor any token balance changes.
\<close>

theorem executeRebalance_retargeted_counterexample:
  "transact demo_env \<lparr>msg_sender = 1, block_timestamp = 1150,
      the_call = SetVaultManager 12\<rparr> demo_funded = demo_retargeted
   \<and> executeRebalance demo_env 6 1200 1 [0] [9] demo_retargeted
       = Inr ((), demo_retargeted_executed)
   \<and> nonces demo_retargeted_executed 9 = nonces demo_retargeted 9 + 1
   \<and> vaults demo_retargeted_executed = vaults demo_retargeted
   \<and> vaultStrategies demo_retargeted_executed = vaultStrategies demo_retargeted
   \<and> tokens demo_retargeted_executed = tokens demo_retargeted"
  by (simp add: transact_def state_of_def setVaultManager_def ex_onlyOwner_def
      executeRebalance_def call_rebalance_def checked_add_def UINT256_MAX_def
      demo_env_def demo_payload_def demo_retargeted_executed_def demo_retargeted_def
      demo_funded_def demo_vault_def demo_deployed_def)

section \<open>What \<open>createVault\<close>, \<open>deposit\<close> and \<open>withdraw\<close> do\<close>

lemma createVault_effect:
  assumes "createVault sender now tokA tokB params w = Inr (vid, w')"
  shows "\<not> vm_paused w \<and> tokA \<noteq> 0 \<and> tokB \<noteq> 0 \<and> tokA \<noteq> tokB
    \<and> vid = vaultCount w + 1 \<and> vaultCount w' = vid
    \<and> vaults w' = (vaults w)(vid :=
         \<lparr>vaultId = vid, owner = sender, tokenA = tokA, tokenB = tokB,
          totalShares = 0, totalTokenA = 0, totalTokenB = 0, strategy = 0,
          lastRebalance = now, isActive = True\<rparr>)
    \<and> vaultStrategies w' = (vaultStrategies w)(vid := params)
    \<and> userShares w' = userShares w \<and> nonces w' = nonces w \<and> tokens w' = tokens w"
  using assms unfolding createVault_def
  by (auto simp: guard_Inr_iff whenNotPaused_Inr_iff and_then_Inr_iff checked_Inr_iff)

lemma deposit_effect:
  assumes "deposit sender vid amountA amountB w = Inr (shares, w')"
  shows "\<not> vm_entered w \<and> \<not> vm_paused w \<and> owner (vaults w vid) \<noteq> 0
    \<and> isActive (vaults w vid) \<and> MIN_DEPOSIT \<le> amountA \<and> MIN_DEPOSIT \<le> amountB
    \<and> deposit_shares (vaults w vid) amountA amountB = Inr shares
    \<and> vaults w' = (vaults w)(vid := (vaults w vid)
          \<lparr>totalShares := totalShares (vaults w vid) + shares,
           totalTokenA := totalTokenA (vaults w vid) + amountA,
           totalTokenB := totalTokenB (vaults w vid) + amountB\<rparr>)
    \<and> userShares w' = (userShares w)(vid :=
          (userShares w vid)(sender := userShares w vid sender + shares))
    \<and> vaultCount w' = vaultCount w \<and> nonces w' = nonces w
    \<and> vaultStrategies w' = vaultStrategies w
    \<and> totalShares (vaults w vid) + shares \<le> UINT256_MAX
    \<and> totalTokenA (vaults w vid) + amountA \<le> UINT256_MAX
    \<and> totalTokenB (vaults w vid) + amountB \<le> UINT256_MAX
    \<and> userShares w vid sender + shares \<le> UINT256_MAX
    \<and> (\<exists>t. erc20_transferFrom (tokenA (vaults w vid)) (vm_this w) sender (vm_this w) amountA
               (tokens w) = Inr t
           \<and> erc20_transferFrom (tokenB (vaults w vid)) (vm_this w) sender (vm_this w) amountB t
               = Inr (tokens w'))"
  using assms unfolding deposit_def
  apply (simp add: guard_Inr_iff nonReentrant_Inr_iff whenNotPaused_Inr_iff and_then_Inr_iff
      checked_Inr_iff safeTransferFrom_Inr_iff Let_def split_paired_Ex)
  apply (elim exE conjE)
  apply hypsubst
  apply simp
  done

lemma withdraw_effect:
  assumes "withdraw sender vid shares w = Inr ((amountA, amountB), w')"
  shows "\<not> vm_entered w \<and> owner (vaults w vid) \<noteq> 0
    \<and> shares \<le> userShares w vid sender \<and> shares \<le> totalShares (vaults w vid)
    \<and> 0 < totalShares (vaults w vid)
    \<and> amountA = shares * totalTokenA (vaults w vid) div totalShares (vaults w vid)
    \<and> amountB = shares * totalTokenB (vaults w vid) div totalShares (vaults w vid)
    \<and> amountA \<le> totalTokenA (vaults w vid) \<and> amountB \<le> totalTokenB (vaults w vid)
    \<and> vaults w' = (vaults w)(vid := (vaults w vid)
          \<lparr>totalShares := totalShares (vaults w vid) - shares,
           totalTokenA := totalTokenA (vaults w vid) - amountA,
           totalTokenB := totalTokenB (vaults w vid) - amountB\<rparr>)
    \<and> userShares w' = (userShares w)(vid :=
          (userShares w vid)(sender := userShares w vid sender - shares))
    \<and> vaultCount w' = vaultCount w \<and> nonces w' = nonces w
    \<and> vaultStrategies w' = vaultStrategies w
    \<and> (\<exists>t. erc20_move (tokenA (vaults w vid)) (vm_this w) sender amountA (tokens w) = Inr t
           \<and> erc20_move (tokenB (vaults w vid)) (vm_this w) sender amountB t = Inr (tokens w'))"
  using assms unfolding withdraw_def
  apply (simp add: guard_Inr_iff nonReentrant_Inr_iff and_then_Inr_iff
      checked_Inr_iff safeTransfer_Inr_iff Let_def split_paired_Ex)
  apply (elim exE conjE)
  apply hypsubst
  apply simp
  done

lemma demo_withdraw:
  "withdraw 5 1 24494897427831 demo_funded
     = Inr ((10 ^ 18, 6 * 10 ^ 8), demo_withdrawn)"
  by (simp add: withdraw_def nonReentrant_def demo_withdrawn_def demo_funded_def demo_vault_def
      demo_deployed_def demo_tokens_def safeTransfer_def erc20_move_def checked_mul_def
      checked_div_def checked_sub_def UINT256_MAX_def Let_def)

lemma mult_div_le_of_le:
  assumes "(s::nat) \<le> t" and "0 < t"
  shows "s * x div t \<le> x"
proof -
  have "s * x \<le> t * x" using assms(1) by simp
  then have "s * x div t \<le> t * x div t" by (rule div_le_mono)
  also have "\<dots> = x" using assms(2) by simp
  finally show ?thesis .
qed

lemma withdraw_succeeds:
  assumes "owner (vaults w vid) \<noteq> 0" and "\<not> vm_entered w"
    and "shares \<le> userShares w vid sender"
    and "0 < totalShares (vaults w vid)" and "shares \<le> totalShares (vaults w vid)"
    and "shares * totalTokenA (vaults w vid) \<le> UINT256_MAX"
    and "shares * totalTokenB (vaults w vid) \<le> UINT256_MAX"
    and "erc20_move (tokenA (vaults w vid)) (vm_this w) sender
           (shares * totalTokenA (vaults w vid) div totalShares (vaults w vid)) (tokens w) = Inr t1"
    and "erc20_move (tokenB (vaults w vid)) (vm_this w) sender
           (shares * totalTokenB (vaults w vid) div totalShares (vaults w vid)) t1 = Inr t2"
  shows "\<exists>w'. withdraw sender vid shares w
           = Inr ((shares * totalTokenA (vaults w vid) div totalShares (vaults w vid),
                   shares * totalTokenB (vaults w vid) div totalShares (vaults w vid)), w')"
proof -
  have "shares * totalTokenA (vaults w vid) div totalShares (vaults w vid)
          \<le> totalTokenA (vaults w vid)"
    and "shares * totalTokenB (vaults w vid) div totalShares (vaults w vid)
          \<le> totalTokenB (vaults w vid)"
    using assms(4,5) by (simp_all add: mult_div_le_of_le)
  then show ?thesis
    using assms
    by (simp add: withdraw_def nonReentrant_def checked_mul_def checked_div_def checked_sub_def
        safeTransfer_def Let_def)
qed

lemma deposit_shares_value:
  assumes "deposit_shares v a b = Inr s"
  shows "if totalShares v = 0
         then s * s \<le> a * b \<and> a * b < (s + 1) * (s + 1)
         else s = min (a * totalShares v div totalTokenA v) (b * totalShares v div totalTokenB v)"
proof (cases "totalShares v = 0")
  case True
  with assms have fits: "a * b \<le> UINT256_MAX" and root: "sqrt_sol (a * b) = Inr s"
    by (simp_all add: deposit_shares_def and_then_Inr_iff checked_mul_Inr_iff)
  from root have "a * b \<noteq> UINT256_MAX" using sqrt_sol_max by auto
  with fits have "a * b < UINT256_MAX" by simp
  from sqrt_sol_floor [OF this] root True show ?thesis by auto
next
  case False
  with assms show ?thesis
    by (auto simp: deposit_shares_def and_then_Inr_iff checked_Inr_iff min_def)
qed

lemma deposit_succeeds:
  assumes "\<not> vm_entered w" and "\<not> vm_paused w" and "owner (vaults w vid) \<noteq> 0"
    and "isActive (vaults w vid)"
    and "MIN_DEPOSIT \<le> amountA" and "MIN_DEPOSIT \<le> amountB"
    and "erc20_transferFrom (tokenA (vaults w vid)) (vm_this w) sender (vm_this w) amountA
           (tokens w) = Inr t1"
    and "erc20_transferFrom (tokenB (vaults w vid)) (vm_this w) sender (vm_this w) amountB t1
           = Inr t2"
    and "deposit_shares (vaults w vid) amountA amountB = Inr shares"
    and "totalShares (vaults w vid) + shares \<le> UINT256_MAX"
    and "totalTokenA (vaults w vid) + amountA \<le> UINT256_MAX"
    and "totalTokenB (vaults w vid) + amountB \<le> UINT256_MAX"
    and "userShares w vid sender + shares \<le> UINT256_MAX"
  shows "\<exists>w'. deposit sender vid amountA amountB w = Inr (shares, w')"
  using assms
  by (simp add: deposit_def nonReentrant_def whenNotPaused_def safeTransferFrom_def
      checked_add_def Let_def)

section \<open>Claims about \<open>withdraw\<close> and \<open>deposit\<close>\<close>

text \<open>
  C6 (as amended). On an existing vault: if the caller holds fewer shares than requested,
  \<open>withdraw\<close> reverts with \<open>InsufficientShares\<close> and the state is unchanged. Whenever
  \<open>withdraw\<close> returns, it returns exactly \<open>floor (shares * totalTokenX / totalShares)\<close> for
  each token and lowers \<open>totalShares\<close>, \<open>totalTokenA\<close>, \<open>totalTokenB\<close> and the caller's
  balance by exactly the shares and amounts, none of which exceeds what it is taken from.
  And it does return when the caller holds the shares, \<open>totalShares\<close> is positive and at least
  the shares, the two products fit in a \<open>uint256\<close> and the two token transfers out of the
  VaultManager go through.
\<close>

theorem withdraw_correct_and_atomic:
  assumes "owner (vaults w vid) \<noteq> 0" and "\<not> vm_entered w"
  shows "(userShares w vid sender < tooMany \<longrightarrow>
            withdraw sender vid tooMany w = Inl InsufficientShares
          \<and> transact env \<lparr>msg_sender = sender, block_timestamp = now,
               the_call = Withdraw vid tooMany\<rparr> w = w)
       \<and> (withdraw sender vid shares w = Inr ((amountA, amountB), w') \<longrightarrow>
            amountA = shares * totalTokenA (vaults w vid) div totalShares (vaults w vid)
          \<and> amountB = shares * totalTokenB (vaults w vid) div totalShares (vaults w vid)
          \<and> shares \<le> totalShares (vaults w vid)
          \<and> amountA \<le> totalTokenA (vaults w vid) \<and> amountB \<le> totalTokenB (vaults w vid)
          \<and> shares \<le> userShares w vid sender
          \<and> totalShares (vaults w' vid) = totalShares (vaults w vid) - shares
          \<and> totalTokenA (vaults w' vid) = totalTokenA (vaults w vid) - amountA
          \<and> totalTokenB (vaults w' vid) = totalTokenB (vaults w vid) - amountB
          \<and> userShares w' vid sender = userShares w vid sender - shares)
       \<and> (shares \<le> userShares w vid sender
          \<and> 0 < totalShares (vaults w vid) \<and> shares \<le> totalShares (vaults w vid)
          \<and> shares * totalTokenA (vaults w vid) \<le> UINT256_MAX
          \<and> shares * totalTokenB (vaults w vid) \<le> UINT256_MAX
          \<and> erc20_move (tokenA (vaults w vid)) (vm_this w) sender
               (shares * totalTokenA (vaults w vid) div totalShares (vaults w vid)) (tokens w)
               = Inr t1
          \<and> erc20_move (tokenB (vaults w vid)) (vm_this w) sender
               (shares * totalTokenB (vaults w vid) div totalShares (vaults w vid)) t1
               = Inr t2 \<longrightarrow>
            (\<exists>w2. withdraw sender vid shares w
               = Inr ((shares * totalTokenA (vaults w vid) div totalShares (vaults w vid),
                       shares * totalTokenB (vaults w vid) div totalShares (vaults w vid)), w2)))"
proof -
  have refuse: "userShares w vid sender < tooMany \<longrightarrow>
            withdraw sender vid tooMany w = Inl InsufficientShares
          \<and> transact env \<lparr>msg_sender = sender, block_timestamp = now,
               the_call = Withdraw vid tooMany\<rparr> w = w"
  proof
    assume "userShares w vid sender < tooMany"
    with assms have "withdraw sender vid tooMany w = Inl InsufficientShares"
      by (simp add: withdraw_def nonReentrant_def)
    then show "withdraw sender vid tooMany w = Inl InsufficientShares
        \<and> transact env \<lparr>msg_sender = sender, block_timestamp = now,
             the_call = Withdraw vid tooMany\<rparr> w = w"
      by (simp add: transact_def state_of_def)
  qed
  have exact: "withdraw sender vid shares w = Inr ((amountA, amountB), w') \<longrightarrow>
            amountA = shares * totalTokenA (vaults w vid) div totalShares (vaults w vid)
          \<and> amountB = shares * totalTokenB (vaults w vid) div totalShares (vaults w vid)
          \<and> shares \<le> totalShares (vaults w vid)
          \<and> amountA \<le> totalTokenA (vaults w vid) \<and> amountB \<le> totalTokenB (vaults w vid)
          \<and> shares \<le> userShares w vid sender
          \<and> totalShares (vaults w' vid) = totalShares (vaults w vid) - shares
          \<and> totalTokenA (vaults w' vid) = totalTokenA (vaults w vid) - amountA
          \<and> totalTokenB (vaults w' vid) = totalTokenB (vaults w vid) - amountB
          \<and> userShares w' vid sender = userShares w vid sender - shares"
  proof
    assume ok: "withdraw sender vid shares w = Inr ((amountA, amountB), w')"
    from withdraw_effect [OF ok]
    show "amountA = shares * totalTokenA (vaults w vid) div totalShares (vaults w vid)
      \<and> amountB = shares * totalTokenB (vaults w vid) div totalShares (vaults w vid)
      \<and> shares \<le> totalShares (vaults w vid)
      \<and> amountA \<le> totalTokenA (vaults w vid) \<and> amountB \<le> totalTokenB (vaults w vid)
      \<and> shares \<le> userShares w vid sender
      \<and> totalShares (vaults w' vid) = totalShares (vaults w vid) - shares
      \<and> totalTokenA (vaults w' vid) = totalTokenA (vaults w vid) - amountA
      \<and> totalTokenB (vaults w' vid) = totalTokenB (vaults w vid) - amountB
      \<and> userShares w' vid sender = userShares w vid sender - shares"
      by simp
  qed
  have returns: "shares \<le> userShares w vid sender
          \<and> 0 < totalShares (vaults w vid) \<and> shares \<le> totalShares (vaults w vid)
          \<and> shares * totalTokenA (vaults w vid) \<le> UINT256_MAX
          \<and> shares * totalTokenB (vaults w vid) \<le> UINT256_MAX
          \<and> erc20_move (tokenA (vaults w vid)) (vm_this w) sender
               (shares * totalTokenA (vaults w vid) div totalShares (vaults w vid)) (tokens w)
               = Inr t1
          \<and> erc20_move (tokenB (vaults w vid)) (vm_this w) sender
               (shares * totalTokenB (vaults w vid) div totalShares (vaults w vid)) t1
               = Inr t2 \<longrightarrow>
            (\<exists>w2. withdraw sender vid shares w
               = Inr ((shares * totalTokenA (vaults w vid) div totalShares (vaults w vid),
                       shares * totalTokenB (vaults w vid) div totalShares (vaults w vid)), w2))"
    using withdraw_succeeds [OF assms, of shares sender t1 t2] by blast
  show ?thesis by (rule conjI [OF refuse conjI [OF exact returns]])
qed

theorem withdraw_correct_and_atomic_witness:
  "owner (vaults demo_funded 1) \<noteq> 0 \<and> \<not> vm_entered demo_funded
   \<and> userShares demo_funded 1 5 < 24494897427832
   \<and> withdraw 5 1 24494897427832 demo_funded = Inl InsufficientShares
   \<and> transact demo_env \<lparr>msg_sender = 5, block_timestamp = 3000,
         the_call = Withdraw 1 24494897427832\<rparr> demo_funded = demo_funded
   \<and> withdraw 5 1 24494897427831 demo_funded = Inr ((10 ^ 18, 6 * 10 ^ 8), demo_withdrawn)
   \<and> 24494897427831 \<le> totalShares (vaults demo_funded 1)
   \<and> userShares demo_withdrawn 1 5 = userShares demo_funded 1 5 - 24494897427831
   \<and> (\<exists>w2. withdraw 5 1 24494897427831 demo_funded
         = Inr ((24494897427831 * totalTokenA (vaults demo_funded 1)
                   div totalShares (vaults demo_funded 1),
                 24494897427831 * totalTokenB (vaults demo_funded 1)
                   div totalShares (vaults demo_funded 1)), w2))"
proof -
  have ex: "owner (vaults demo_funded 1) \<noteq> 0" and ne: "\<not> vm_entered demo_funded"
    by (simp_all add: demo_funded_def demo_vault_def demo_deployed_def)
  have vals: "userShares demo_funded 1 5 = 24494897427831"
    "totalShares (vaults demo_funded 1) = 24494897427831"
    "totalTokenA (vaults demo_funded 1) = 10 ^ 18"
    "totalTokenB (vaults demo_funded 1) = 6 * 10 ^ 8"
    "tokenA (vaults demo_funded 1) = 10" "tokenB (vaults demo_funded 1) = 11"
    "vm_this demo_funded = 16"
    by (simp_all add: demo_funded_def demo_vault_def demo_deployed_def)
  have lt: "userShares demo_funded 1 5 < 24494897427832" using vals(1) by simp
  have m1: "erc20_move 10 16 5 (10 ^ 18) (tokens demo_funded)
      = Inr ((tokens demo_funded)\<lparr>balanceOf := (balanceOf (tokens demo_funded))
           (10 := (balanceOf (tokens demo_funded) 10)(16 := 0, 5 := 10 ^ 30))\<rparr>)"
    by (simp add: erc20_move_def demo_funded_def demo_vault_def demo_deployed_def
        demo_tokens_def Let_def)
  have m2: "erc20_move 11 16 5 (6 * 10 ^ 8) ((tokens demo_funded)\<lparr>balanceOf :=
           (balanceOf (tokens demo_funded))
           (10 := (balanceOf (tokens demo_funded) 10)(16 := 0, 5 := 10 ^ 30))\<rparr>)
      = Inr (tokens demo_withdrawn)"
    by (simp add: erc20_move_def demo_withdrawn_def demo_funded_def demo_vault_def
        demo_deployed_def demo_tokens_def Let_def)
  have live: "24494897427831 \<le> userShares demo_funded 1 5
      \<and> 0 < totalShares (vaults demo_funded 1)
      \<and> 24494897427831 \<le> totalShares (vaults demo_funded 1)
      \<and> 24494897427831 * totalTokenA (vaults demo_funded 1) \<le> UINT256_MAX
      \<and> 24494897427831 * totalTokenB (vaults demo_funded 1) \<le> UINT256_MAX
      \<and> erc20_move (tokenA (vaults demo_funded 1)) (vm_this demo_funded) 5
           (24494897427831 * totalTokenA (vaults demo_funded 1)
              div totalShares (vaults demo_funded 1)) (tokens demo_funded)
           = Inr ((tokens demo_funded)\<lparr>balanceOf := (balanceOf (tokens demo_funded))
                (10 := (balanceOf (tokens demo_funded) 10)(16 := 0, 5 := 10 ^ 30))\<rparr>)
      \<and> erc20_move (tokenB (vaults demo_funded 1)) (vm_this demo_funded) 5
           (24494897427831 * totalTokenB (vaults demo_funded 1)
              div totalShares (vaults demo_funded 1))
           ((tokens demo_funded)\<lparr>balanceOf := (balanceOf (tokens demo_funded))
                (10 := (balanceOf (tokens demo_funded) 10)(16 := 0, 5 := 10 ^ 30))\<rparr>)
           = Inr (tokens demo_withdrawn)"
    using m1 m2 vals by (simp add: UINT256_MAX_def)
  note T = withdraw_correct_and_atomic [OF ex ne, where sender = 5
        and tooMany = 24494897427832 and env = demo_env and now = 3000
        and shares = 24494897427831 and amountA = "10 ^ 18" and amountB = "6 * 10 ^ 8"
        and w' = demo_withdrawn
        and ?t1.0 = "(tokens demo_funded)\<lparr>balanceOf := (balanceOf (tokens demo_funded))
           (10 := (balanceOf (tokens demo_funded) 10)(16 := 0, 5 := 10 ^ 30))\<rparr>"
        and ?t2.0 = "tokens demo_withdrawn"]
  note r1 = T [THEN conjunct1, THEN mp, OF lt]
  note r2 = T [THEN conjunct2, THEN conjunct1, THEN mp, OF demo_withdraw]
  note r3 = T [THEN conjunct2, THEN conjunct2, THEN mp, OF live]
  note r2a = r2 [THEN conjunct2, THEN conjunct2, THEN conjunct1]
  note r2b = r2 [THEN conjunct2, THEN conjunct2, THEN conjunct2, THEN conjunct2,
      THEN conjunct2, THEN conjunct2, THEN conjunct2, THEN conjunct2, THEN conjunct2]
  show ?thesis
    by (intro conjI ex ne lt r1 [THEN conjunct1] r1 [THEN conjunct2] demo_withdraw r2a r2b r3)
qed

text \<open>
  C6 as stated fails: a caller who holds the requested shares is not always paid. On the
  empty vault 1, account 7 holds no fewer than the 0 shares it asks for, and the call
  reverts on the division by \<open>totalShares = 0\<close>.
\<close>

theorem withdraw_zero_shares_counterexample:
  "owner (vaults demo_vault 1) \<noteq> 0 \<and> \<not> userShares demo_vault 1 7 < 0
   \<and> withdraw 7 1 0 demo_vault = Inl PanicDivisionByZero
   \<and> withdraw 7 1 0 demo_vault \<noteq> Inr ((0, 0), demo_vault)"
  by (simp add: withdraw_def nonReentrant_def checked_mul_def checked_div_def demo_vault_def
      demo_deployed_def)

text \<open>
  C5 (as amended). The shares of a deposit: on a vault with \<open>totalShares = 0\<close> and amounts
  whose product is below \<open>2^256 - 1\<close> they are the floor of the square root of
  \<open>amountA * amountB\<close> (\<open>_sqrt\<close> returns the floor of the square root for every input below
  \<open>2^256 - 1\<close>); on a vault with positive \<open>totalShares\<close>, \<open>totalTokenA\<close> and \<open>totalTokenB\<close>
  and products that fit they are the minimum of \<open>floor (amountA * totalShares / totalTokenA)\<close>
  and \<open>floor (amountB * totalShares / totalTokenB)\<close>. A \<open>deposit\<close> returns exactly when the
  call is not nested in a guarded call, the contract is not paused, the vault exists and is
  active, both amounts are at least \<open>MIN_DEPOSIT\<close>, the two transfers from the caller go
  through, the shares are computed and the four updated sums fit in a \<open>uint256\<close>: each of
  these holds whenever it returns, and together they make it return. When it returns, it
  returns exactly the shares above and adds them to \<open>totalShares\<close> and to the caller's
  balance, and the amounts to the two totals. Otherwise it reverts and the state after the
  transaction is the state before it.
\<close>

theorem deposit_share_minting:
  "(totalShares v0 = 0 \<and> a0 * b0 < UINT256_MAX \<longrightarrow>
      (\<exists>s. deposit_shares v0 a0 b0 = Inr s \<and> s * s \<le> a0 * b0 \<and> a0 * b0 < (s + 1) * (s + 1)))
   \<and> (0 < totalShares v1 \<and> 0 < totalTokenA v1 \<and> 0 < totalTokenB v1
       \<and> a1 * totalShares v1 \<le> UINT256_MAX \<and> b1 * totalShares v1 \<le> UINT256_MAX \<longrightarrow>
      deposit_shares v1 a1 b1
        = Inr (min (a1 * totalShares v1 div totalTokenA v1)
                   (b1 * totalShares v1 div totalTokenB v1)))
   \<and> (x < UINT256_MAX \<longrightarrow> (\<exists>r. sqrt_sol x = Inr r \<and> r * r \<le> x \<and> x < (r + 1) * (r + 1)))
   \<and> (deposit sender vid amountA amountB w = Inr (shares, w') \<longrightarrow>
        MIN_DEPOSIT \<le> amountA \<and> MIN_DEPOSIT \<le> amountB \<and> isActive (vaults w vid)
      \<and> deposit_shares (vaults w vid) amountA amountB = Inr shares
      \<and> totalShares (vaults w' vid) = totalShares (vaults w vid) + shares
      \<and> totalTokenA (vaults w' vid) = totalTokenA (vaults w vid) + amountA
      \<and> totalTokenB (vaults w' vid) = totalTokenB (vaults w vid) + amountB
      \<and> userShares w' vid sender = userShares w vid sender + shares
      \<and> (if totalShares (vaults w vid) = 0
          then shares * shares \<le> amountA * amountB
               \<and> amountA * amountB < (shares + 1) * (shares + 1)
          else shares = min (amountA * totalShares (vaults w vid) div totalTokenA (vaults w vid))
                            (amountB * totalShares (vaults w vid) div totalTokenB (vaults w vid)))
      \<and> \<not> vm_entered w \<and> \<not> vm_paused w \<and> owner (vaults w vid) \<noteq> 0
      \<and> totalShares (vaults w vid) + shares \<le> UINT256_MAX
      \<and> totalTokenA (vaults w vid) + amountA \<le> UINT256_MAX
      \<and> totalTokenB (vaults w vid) + amountB \<le> UINT256_MAX
      \<and> userShares w vid sender + shares \<le> UINT256_MAX
      \<and> (\<exists>t. erc20_transferFrom (tokenA (vaults w vid)) (vm_this w) sender (vm_this w)
                 amountA (tokens w) = Inr t
             \<and> erc20_transferFrom (tokenB (vaults w vid)) (vm_this w) sender (vm_this w)
                 amountB t = Inr (tokens w')))
   \<and> (\<not> vm_entered w \<and> \<not> vm_paused w \<and> owner (vaults w vid) \<noteq> 0 \<and> isActive (vaults w vid)
       \<and> MIN_DEPOSIT \<le> amountA \<and> MIN_DEPOSIT \<le> amountB
       \<and> erc20_transferFrom (tokenA (vaults w vid)) (vm_this w) sender (vm_this w) amountA
            (tokens w) = Inr t1
       \<and> erc20_transferFrom (tokenB (vaults w vid)) (vm_this w) sender (vm_this w) amountB t1
            = Inr t2
       \<and> deposit_shares (vaults w vid) amountA amountB = Inr shares
       \<and> totalShares (vaults w vid) + shares \<le> UINT256_MAX
       \<and> totalTokenA (vaults w vid) + amountA \<le> UINT256_MAX
       \<and> totalTokenB (vaults w vid) + amountB \<le> UINT256_MAX
       \<and> userShares w vid sender + shares \<le> UINT256_MAX \<longrightarrow>
      (\<exists>w2. deposit sender vid amountA amountB w = Inr (shares, w2)))
   \<and> (((\<exists>e. deposit sender vid amountA amountB w = Inl e)
        \<and> transact env \<lparr>msg_sender = sender, block_timestamp = now,
              the_call = Deposit vid amountA amountB\<rparr> w = w)
       \<or> (\<exists>s w2. deposit sender vid amountA amountB w = Inr (s, w2)
             \<and> transact env \<lparr>msg_sender = sender, block_timestamp = now,
                   the_call = Deposit vid amountA amountB\<rparr> w = w2))"
proof -
  have first: "totalShares v0 = 0 \<and> a0 * b0 < UINT256_MAX \<longrightarrow>
      (\<exists>s. deposit_shares v0 a0 b0 = Inr s \<and> s * s \<le> a0 * b0 \<and> a0 * b0 < (s + 1) * (s + 1))"
    using sqrt_sol_floor [of "a0 * b0"]
    by (simp add: deposit_shares_def checked_mul_def)
  have later: "0 < totalShares v1 \<and> 0 < totalTokenA v1 \<and> 0 < totalTokenB v1
       \<and> a1 * totalShares v1 \<le> UINT256_MAX \<and> b1 * totalShares v1 \<le> UINT256_MAX \<longrightarrow>
      deposit_shares v1 a1 b1
        = Inr (min (a1 * totalShares v1 div totalTokenA v1)
                   (b1 * totalShares v1 div totalTokenB v1))"
    by (simp add: deposit_shares_def checked_mul_def checked_div_def min_def)
  have root: "x < UINT256_MAX \<longrightarrow>
      (\<exists>r. sqrt_sol x = Inr r \<and> r * r \<le> x \<and> x < (r + 1) * (r + 1))"
    using sqrt_sol_floor [of x] by blast
  have exact: "deposit sender vid amountA amountB w = Inr (shares, w') \<longrightarrow>
        MIN_DEPOSIT \<le> amountA \<and> MIN_DEPOSIT \<le> amountB \<and> isActive (vaults w vid)
      \<and> deposit_shares (vaults w vid) amountA amountB = Inr shares
      \<and> totalShares (vaults w' vid) = totalShares (vaults w vid) + shares
      \<and> totalTokenA (vaults w' vid) = totalTokenA (vaults w vid) + amountA
      \<and> totalTokenB (vaults w' vid) = totalTokenB (vaults w vid) + amountB
      \<and> userShares w' vid sender = userShares w vid sender + shares
      \<and> (if totalShares (vaults w vid) = 0
          then shares * shares \<le> amountA * amountB
               \<and> amountA * amountB < (shares + 1) * (shares + 1)
          else shares = min (amountA * totalShares (vaults w vid) div totalTokenA (vaults w vid))
                            (amountB * totalShares (vaults w vid) div totalTokenB (vaults w vid)))
      \<and> \<not> vm_entered w \<and> \<not> vm_paused w \<and> owner (vaults w vid) \<noteq> 0
      \<and> totalShares (vaults w vid) + shares \<le> UINT256_MAX
      \<and> totalTokenA (vaults w vid) + amountA \<le> UINT256_MAX
      \<and> totalTokenB (vaults w vid) + amountB \<le> UINT256_MAX
      \<and> userShares w vid sender + shares \<le> UINT256_MAX
      \<and> (\<exists>t. erc20_transferFrom (tokenA (vaults w vid)) (vm_this w) sender (vm_this w)
                 amountA (tokens w) = Inr t
             \<and> erc20_transferFrom (tokenB (vaults w vid)) (vm_this w) sender (vm_this w)
                 amountB t = Inr (tokens w'))"
  proof
    assume ok: "deposit sender vid amountA amountB w = Inr (shares, w')"
    note e = deposit_effect [OF ok]
    from e have ds: "deposit_shares (vaults w vid) amountA amountB = Inr shares" by simp
    from e deposit_shares_value [OF ds]
    show "MIN_DEPOSIT \<le> amountA \<and> MIN_DEPOSIT \<le> amountB \<and> isActive (vaults w vid)
      \<and> deposit_shares (vaults w vid) amountA amountB = Inr shares
      \<and> totalShares (vaults w' vid) = totalShares (vaults w vid) + shares
      \<and> totalTokenA (vaults w' vid) = totalTokenA (vaults w vid) + amountA
      \<and> totalTokenB (vaults w' vid) = totalTokenB (vaults w vid) + amountB
      \<and> userShares w' vid sender = userShares w vid sender + shares
      \<and> (if totalShares (vaults w vid) = 0
          then shares * shares \<le> amountA * amountB
               \<and> amountA * amountB < (shares + 1) * (shares + 1)
          else shares = min (amountA * totalShares (vaults w vid) div totalTokenA (vaults w vid))
                            (amountB * totalShares (vaults w vid) div totalTokenB (vaults w vid)))
      \<and> \<not> vm_entered w \<and> \<not> vm_paused w \<and> owner (vaults w vid) \<noteq> 0
      \<and> totalShares (vaults w vid) + shares \<le> UINT256_MAX
      \<and> totalTokenA (vaults w vid) + amountA \<le> UINT256_MAX
      \<and> totalTokenB (vaults w vid) + amountB \<le> UINT256_MAX
      \<and> userShares w vid sender + shares \<le> UINT256_MAX
      \<and> (\<exists>t. erc20_transferFrom (tokenA (vaults w vid)) (vm_this w) sender (vm_this w)
                 amountA (tokens w) = Inr t
             \<and> erc20_transferFrom (tokenB (vaults w vid)) (vm_this w) sender (vm_this w)
                 amountB t = Inr (tokens w'))"
      by simp
  qed
  have returns: "\<not> vm_entered w \<and> \<not> vm_paused w \<and> owner (vaults w vid) \<noteq> 0
       \<and> isActive (vaults w vid)
       \<and> MIN_DEPOSIT \<le> amountA \<and> MIN_DEPOSIT \<le> amountB
       \<and> erc20_transferFrom (tokenA (vaults w vid)) (vm_this w) sender (vm_this w) amountA
            (tokens w) = Inr t1
       \<and> erc20_transferFrom (tokenB (vaults w vid)) (vm_this w) sender (vm_this w) amountB t1
            = Inr t2
       \<and> deposit_shares (vaults w vid) amountA amountB = Inr shares
       \<and> totalShares (vaults w vid) + shares \<le> UINT256_MAX
       \<and> totalTokenA (vaults w vid) + amountA \<le> UINT256_MAX
       \<and> totalTokenB (vaults w vid) + amountB \<le> UINT256_MAX
       \<and> userShares w vid sender + shares \<le> UINT256_MAX \<longrightarrow>
      (\<exists>w2. deposit sender vid amountA amountB w = Inr (shares, w2))"
    using deposit_succeeds [of w vid amountA amountB sender t1 t2 shares] by blast
  have outcome: "((\<exists>e. deposit sender vid amountA amountB w = Inl e)
        \<and> transact env \<lparr>msg_sender = sender, block_timestamp = now,
              the_call = Deposit vid amountA amountB\<rparr> w = w)
       \<or> (\<exists>s w2. deposit sender vid amountA amountB w = Inr (s, w2)
             \<and> transact env \<lparr>msg_sender = sender, block_timestamp = now,
                   the_call = Deposit vid amountA amountB\<rparr> w = w2)"
  proof (cases "deposit sender vid amountA amountB w")
    case (Inl e)
    then show ?thesis by (simp add: transact_def state_of_def)
  next
    case (Inr r)
    obtain s w2 where "r = (s, w2)" by (cases r)
    with Inr show ?thesis by (simp add: transact_def state_of_def)
  qed
  show ?thesis
    by (rule conjI [OF first conjI [OF later conjI [OF root conjI [OF exact
        conjI [OF returns outcome]]]]])
qed

theorem deposit_share_minting_witness:
  "totalShares (vaults demo_vault 1) = 0 \<and> 10 ^ 18 * (6 * 10 ^ 8) < UINT256_MAX
   \<and> (\<exists>s. deposit_shares (vaults demo_vault 1) (10 ^ 18) (6 * 10 ^ 8) = Inr s
          \<and> s * s \<le> 10 ^ 18 * (6 * 10 ^ 8) \<and> 10 ^ 18 * (6 * 10 ^ 8) < (s + 1) * (s + 1))
   \<and> deposit_shares (vaults demo_funded 1) (10 ^ 18) (6 * 10 ^ 8)
        = Inr (min (10 ^ 18 * totalShares (vaults demo_funded 1)
                      div totalTokenA (vaults demo_funded 1))
                   (6 * 10 ^ 8 * totalShares (vaults demo_funded 1)
                      div totalTokenB (vaults demo_funded 1)))
   \<and> (\<exists>r. sqrt_sol 600000000000000000000000000 = Inr r
          \<and> r * r \<le> 600000000000000000000000000
          \<and> 600000000000000000000000000 < (r + 1) * (r + 1))
   \<and> deposit 5 1 (10 ^ 18) (6 * 10 ^ 8) demo_vault = Inr (24494897427831, demo_funded)
   \<and> deposit_shares (vaults demo_vault 1) (10 ^ 18) (6 * 10 ^ 8) = Inr 24494897427831
   \<and> (\<exists>w2. deposit 5 1 (10 ^ 18) (6 * 10 ^ 8) demo_vault = Inr (24494897427831, w2))
   \<and> transact demo_env \<lparr>msg_sender = 5, block_timestamp = 1100,
         the_call = Deposit 1 (10 ^ 18) (6 * 10 ^ 8)\<rparr> demo_vault = demo_funded"
proof -
  have h0: "totalShares (vaults demo_vault 1) = 0 \<and> 10 ^ 18 * (6 * 10 ^ 8) < UINT256_MAX"
    by (simp add: demo_vault_def demo_deployed_def UINT256_MAX_def)
  have h1: "0 < totalShares (vaults demo_funded 1) \<and> 0 < totalTokenA (vaults demo_funded 1)
      \<and> 0 < totalTokenB (vaults demo_funded 1)
      \<and> 10 ^ 18 * totalShares (vaults demo_funded 1) \<le> UINT256_MAX
      \<and> 6 * 10 ^ 8 * totalShares (vaults demo_funded 1) \<le> UINT256_MAX"
    by (simp add: demo_funded_def demo_vault_def demo_deployed_def UINT256_MAX_def)
  have hx: "(600000000000000000000000000::nat) < UINT256_MAX"
    by (simp add: UINT256_MAX_def)
  have f1: "erc20_transferFrom 10 16 5 16 (10 ^ 18) demo_tokens
      = Inr \<lparr>balanceOf = (balanceOf demo_tokens)
               (10 := (balanceOf demo_tokens 10)(5 := 10 ^ 30 - 10 ^ 18, 16 := 10 ^ 18)),
             allowance = (allowance demo_tokens)
               (10 := (allowance demo_tokens 10)
                        (5 := (allowance demo_tokens 10 5)(16 := 10 ^ 30 - 10 ^ 18)))\<rparr>"
    by (simp add: erc20_transferFrom_def erc20_spendAllowance_def erc20_move_def
        demo_tokens_def UINT256_MAX_def Let_def)
  have f2: "erc20_transferFrom 11 16 5 16 (6 * 10 ^ 8)
        \<lparr>balanceOf = (balanceOf demo_tokens)
               (10 := (balanceOf demo_tokens 10)(5 := 10 ^ 30 - 10 ^ 18, 16 := 10 ^ 18)),
             allowance = (allowance demo_tokens)
               (10 := (allowance demo_tokens 10)
                        (5 := (allowance demo_tokens 10 5)(16 := 10 ^ 30 - 10 ^ 18)))\<rparr>
      = Inr (tokens demo_funded)"
    by (simp add: erc20_transferFrom_def erc20_spendAllowance_def erc20_move_def
        demo_funded_def demo_tokens_def UINT256_MAX_def Let_def)
  have live: "\<not> vm_entered demo_vault \<and> \<not> vm_paused demo_vault
      \<and> owner (vaults demo_vault 1) \<noteq> 0 \<and> isActive (vaults demo_vault 1)
      \<and> MIN_DEPOSIT \<le> 10 ^ 18 \<and> MIN_DEPOSIT \<le> 6 * 10 ^ 8
      \<and> erc20_transferFrom (tokenA (vaults demo_vault 1)) (vm_this demo_vault) 5
           (vm_this demo_vault) (10 ^ 18) (tokens demo_vault)
           = Inr \<lparr>balanceOf = (balanceOf demo_tokens)
               (10 := (balanceOf demo_tokens 10)(5 := 10 ^ 30 - 10 ^ 18, 16 := 10 ^ 18)),
             allowance = (allowance demo_tokens)
               (10 := (allowance demo_tokens 10)
                        (5 := (allowance demo_tokens 10 5)(16 := 10 ^ 30 - 10 ^ 18)))\<rparr>
      \<and> erc20_transferFrom (tokenB (vaults demo_vault 1)) (vm_this demo_vault) 5
           (vm_this demo_vault) (6 * 10 ^ 8)
           \<lparr>balanceOf = (balanceOf demo_tokens)
               (10 := (balanceOf demo_tokens 10)(5 := 10 ^ 30 - 10 ^ 18, 16 := 10 ^ 18)),
             allowance = (allowance demo_tokens)
               (10 := (allowance demo_tokens 10)
                        (5 := (allowance demo_tokens 10 5)(16 := 10 ^ 30 - 10 ^ 18)))\<rparr>
           = Inr (tokens demo_funded)
      \<and> deposit_shares (vaults demo_vault 1) (10 ^ 18) (6 * 10 ^ 8) = Inr 24494897427831
      \<and> totalShares (vaults demo_vault 1) + 24494897427831 \<le> UINT256_MAX
      \<and> totalTokenA (vaults demo_vault 1) + 10 ^ 18 \<le> UINT256_MAX
      \<and> totalTokenB (vaults demo_vault 1) + 6 * 10 ^ 8 \<le> UINT256_MAX
      \<and> userShares demo_vault 1 5 + 24494897427831 \<le> UINT256_MAX"
    using f1 f2 demo_first_deposit_shares
    by (simp add: demo_vault_def demo_deployed_def MIN_DEPOSIT_def UINT256_MAX_def)
  note T = deposit_share_minting [where ?v0.0 = "vaults demo_vault 1" and ?a0.0 = "10 ^ 18"
      and ?b0.0 = "6 * 10 ^ 8" and ?v1.0 = "vaults demo_funded 1" and ?a1.0 = "10 ^ 18"
      and ?b1.0 = "6 * 10 ^ 8" and x = 600000000000000000000000000
      and sender = 5 and vid = 1 and amountA = "10 ^ 18" and amountB = "6 * 10 ^ 8"
      and w = demo_vault and shares = 24494897427831 and w' = demo_funded
      and ?t1.0 = "\<lparr>balanceOf = (balanceOf demo_tokens)
               (10 := (balanceOf demo_tokens 10)(5 := 10 ^ 30 - 10 ^ 18, 16 := 10 ^ 18)),
             allowance = (allowance demo_tokens)
               (10 := (allowance demo_tokens 10)
                        (5 := (allowance demo_tokens 10 5)(16 := 10 ^ 30 - 10 ^ 18)))\<rparr>"
      and ?t2.0 = "tokens demo_funded" and env = demo_env and now = 1100]
  note r1 = T [THEN conjunct1, THEN mp, OF h0]
  note r2 = T [THEN conjunct2, THEN conjunct1, THEN mp, OF h1]
  note r3 = T [THEN conjunct2, THEN conjunct2, THEN conjunct1, THEN mp, OF hx]
  note r4 = T [THEN conjunct2, THEN conjunct2, THEN conjunct2, THEN conjunct1, THEN mp,
      OF demo_deposit]
  note r5 = T [THEN conjunct2, THEN conjunct2, THEN conjunct2, THEN conjunct2,
      THEN conjunct1, THEN mp, OF live]
  note r4a = r4 [THEN conjunct2, THEN conjunct2, THEN conjunct2, THEN conjunct1]
  note r6 = T [THEN conjunct2, THEN conjunct2, THEN conjunct2, THEN conjunct2,
      THEN conjunct2, unfolded demo_deposit]
  have r6a: "transact demo_env \<lparr>msg_sender = 5, block_timestamp = 1100,
         the_call = Deposit 1 (10 ^ 18) (6 * 10 ^ 8)\<rparr> demo_vault = demo_funded"
    using r6 by simp
  show ?thesis
    by (intro conjI h0 [THEN conjunct1] h0 [THEN conjunct2] r1 r2 r3 demo_deposit r4a r5 r6a)
qed

text \<open>
  C5 as stated fails: with both amounts \<open>2^128\<close>, each above the minimum, the first deposit
  into the active vault 1 mints nothing; the product does not fit in a \<open>uint256\<close> and the
  call reverts, although the floor of the square root of the product is \<open>2^128\<close>.
\<close>

theorem deposit_product_overflow_counterexample:
  "owner (vaults demo_rich 1) \<noteq> 0 \<and> isActive (vaults demo_rich 1)
   \<and> totalShares (vaults demo_rich 1) = 0
   \<and> MIN_DEPOSIT \<le> 2 ^ 128
   \<and> \<not> vm_paused demo_rich
   \<and> 2 ^ 128 \<le> balanceOf (tokens demo_rich) 10 5
   \<and> 2 ^ 128 \<le> allowance (tokens demo_rich) 10 5 16
   \<and> 2 ^ 128 \<le> balanceOf (tokens demo_rich) 11 5
   \<and> 2 ^ 128 \<le> allowance (tokens demo_rich) 11 5 16
   \<and> deposit 5 1 (2 ^ 128) (2 ^ 128) demo_rich = Inl PanicArithmetic"
  by (simp add: deposit_def nonReentrant_def whenNotPaused_def demo_rich_def demo_vault_def
      demo_deployed_def MIN_DEPOSIT_def safeTransferFrom_def erc20_transferFrom_def
      erc20_spendAllowance_def erc20_move_def deposit_shares_def checked_mul_def
      UINT256_MAX_def Let_def)

text \<open>
  \<open>_sqrt\<close> itself reverts on the largest input: \<open>x + 1\<close> overflows. The amounts
  \<open>2^128 - 1\<close> and \<open>2^128 + 1\<close> have exactly this product.
\<close>

lemma deposit_sqrt_of_max_reverts:
  "sqrt_sol UINT256_MAX = Inl PanicArithmetic
   \<and> deposit 5 1 (2 ^ 128 - 1) (2 ^ 128 + 1) demo_rich = Inl PanicArithmetic"
  by (simp add: deposit_def nonReentrant_def whenNotPaused_def demo_rich_def demo_vault_def
      demo_deployed_def MIN_DEPOSIT_def safeTransferFrom_def erc20_transferFrom_def
      erc20_spendAllowance_def erc20_move_def deposit_shares_def checked_mul_def
      sqrt_sol_def checked_add_def UINT256_MAX_def Let_def)

section \<open>Every transaction keeps the share ledger consistent and never lowers a nonce\<close>

lemma state_of_Inr_iff: "state_of r = Inr w' \<longleftrightarrow> (\<exists>v. r = Inr (v, w'))"
  by (auto simp: state_of_def split: sum.splits)

lemma vm_admin_kept:
  "setStrategyManager s a w = Inr (u, w') \<Longrightarrow> ledger_kept w w' \<and> nonces w' = nonces w"
  "setRelayerAuthorization s a b w = Inr (u, w') \<Longrightarrow> ledger_kept w w' \<and> nonces w' = nonces w"
  "setProtocolFee s n w = Inr (u, w') \<Longrightarrow> ledger_kept w w' \<and> nonces w' = nonces w"
  "setFeeRecipient s a w = Inr (u, w') \<Longrightarrow> ledger_kept w w' \<and> nonces w' = nonces w"
  "pause s w = Inr (u, w') \<Longrightarrow> ledger_kept w w' \<and> nonces w' = nonces w"
  "unpause s w = Inr (u, w') \<Longrightarrow> ledger_kept w w' \<and> nonces w' = nonces w"
  "attachStrategy s v a w = Inr (u, w') \<Longrightarrow> ledger_kept w w' \<and> nonces w' = nonces w"
  "vm_transferOwnership s a w = Inr (u, w') \<Longrightarrow> ledger_kept w w' \<and> nonces w' = nonces w"
  "vm_acceptOwnership s w = Inr (u, w') \<Longrightarrow> ledger_kept w w' \<and> nonces w' = nonces w"
  "vm_renounceOwnership s w = Inr (u, w') \<Longrightarrow> ledger_kept w w' \<and> nonces w' = nonces w"
  by (auto simp: ledger_kept_def setStrategyManager_def setRelayerAuthorization_def
      setProtocolFee_def setFeeRecipient_def pause_def unpause_def attachStrategy_def
      vm_transferOwnership_def vm_acceptOwnership_def vm_renounceOwnership_def
      onlyOwner_Inr_iff whenNotPaused_Inr_iff guard_Inr_iff)

lemma ex_admin_kept:
  "setSignerAuthorization s a b w = Inr (u, w') \<Longrightarrow> ledger_kept w w' \<and> nonces w' = nonces w"
  "setVaultManager s a w = Inr (u, w') \<Longrightarrow> ledger_kept w w' \<and> nonces w' = nonces w"
  "setMaxPayloadAge s n w = Inr (u, w') \<Longrightarrow> ledger_kept w w' \<and> nonces w' = nonces w"
  "setMaxExpiryDuration s n w = Inr (u, w') \<Longrightarrow> ledger_kept w w' \<and> nonces w' = nonces w"
  "ex_transferOwnership s a w = Inr (u, w') \<Longrightarrow> ledger_kept w w' \<and> nonces w' = nonces w"
  "ex_acceptOwnership s w = Inr (u, w') \<Longrightarrow> ledger_kept w w' \<and> nonces w' = nonces w"
  "ex_renounceOwnership s w = Inr (u, w') \<Longrightarrow> ledger_kept w w' \<and> nonces w' = nonces w"
  by (auto simp: ledger_kept_def setSignerAuthorization_def setVaultManager_def
      setMaxPayloadAge_def setMaxExpiryDuration_def ex_transferOwnership_def
      ex_acceptOwnership_def ex_renounceOwnership_def ex_onlyOwner_Inr_iff guard_Inr_iff)

lemma rebalance_kept:
  assumes "rebalance s t v d w = Inr (u, w')"
  shows "ledger_kept w w' \<and> nonces w' = nonces w"
  using rebalance_effect [OF assms] by (simp add: ledger_kept_def)

lemma executeRebalance_kept:
  assumes "executeRebalance env s t v p g w = Inr (u, w')"
  shows "ledger_kept w w' \<and> (\<forall>a. nonces w a \<le> nonces w' a)"
proof -
  from assms [unfolded executeRebalance_Inr_iff] obtain pl :: RebalancePayload and signer where
    call: "call_rebalance env (vaultManager w) t v (actionData pl)
             (w\<lparr>nonces := (nonces w)(signer := nonces w signer + 1)\<rparr>) = (True, w')"
    by blast
  from call_rebalance_frame [OF call] show ?thesis
    by (simp add: ledger_kept_def)
qed

lemma sum_fun_upd:
  fixes f :: "'a::finite \<Rightarrow> nat"
  shows "(\<Sum>a\<in>UNIV. (f(x := y)) a) + f x = (\<Sum>a\<in>UNIV. f a) + y"
proof -
  have "(\<Sum>a\<in>UNIV. (f(x := y)) a) = (f(x := y)) x + (\<Sum>a\<in>UNIV - {x}. (f(x := y)) a)"
    by (rule sum.remove) simp_all
  moreover have "(\<Sum>a\<in>UNIV - {x}. (f(x := y)) a) = (\<Sum>a\<in>UNIV - {x}. f a)"
    by (rule sum.cong) simp_all
  moreover have "(\<Sum>a\<in>UNIV. f a) = f x + (\<Sum>a\<in>UNIV - {x}. f a)"
    by (rule sum.remove) simp_all
  ultimately show ?thesis by simp
qed

lemma kept_conserves:
  assumes "ledger_kept w w'" and "share_conservation w"
  shows "share_conservation w'"
  using assms by (simp add: ledger_kept_def share_conservation_def)

lemma createVault_conserves:
  assumes "createVault s t a b p w = Inr (vid, w')" and "share_conservation w"
  shows "share_conservation w'"
proof -
  note e = createVault_effect [OF assms(1)]
  from e have vid: "vid = vaultCount w + 1" and cnt: "vaultCount w' = vid"
    and us: "userShares w' = userShares w" by simp_all
  from e have v: "\<And>x. x \<noteq> vid \<Longrightarrow> vaults w' x = vaults w x"
    and vn: "totalShares (vaults w' vid) = 0" by simp_all
  from assms(2) vid have old: "totalShares (vaults w vid) = 0"
    by (simp add: share_conservation_def)
  show ?thesis
    unfolding share_conservation_def
  proof (intro conjI allI impI)
    fix x
    show "(\<Sum>a\<in>UNIV. userShares w' x a) = totalShares (vaults w' x)"
    proof (cases "x = vid")
      case True
      with assms(2) old vn us show ?thesis by (simp add: share_conservation_def)
    next
      case False
      with assms(2) v us show ?thesis by (simp add: share_conservation_def)
    qed
  next
    fix x assume "vaultCount w' < x"
    with cnt vid have "vaultCount w < x" "x \<noteq> vid" by simp_all
    with assms(2) v show "owner (vaults w' x) = 0" by (simp add: share_conservation_def)
  next
    fix x assume "vaultCount w' < x"
    with cnt vid have "vaultCount w < x" "x \<noteq> vid" by simp_all
    with assms(2) v show "totalShares (vaults w' x) = 0" by (simp add: share_conservation_def)
  qed
qed

lemma deposit_conserves:
  assumes "deposit s vid a b w = Inr (shares, w')" and "share_conservation w"
  shows "share_conservation w'"
proof -
  note e = deposit_effect [OF assms(1)]
  from e have ex: "owner (vaults w vid) \<noteq> 0" and cnt: "vaultCount w' = vaultCount w" by simp_all
  from e have v: "\<And>x. x \<noteq> vid \<Longrightarrow> vaults w' x = vaults w x"
    and u: "\<And>x. x \<noteq> vid \<Longrightarrow> userShares w' x = userShares w x" by simp_all
  from e have vn: "totalShares (vaults w' vid) = totalShares (vaults w vid) + shares"
    and un: "userShares w' vid = (userShares w vid)(s := userShares w vid s + shares)"
    by simp_all
  from assms(2) ex have inside: "\<not> vaultCount w < vid"
    by (auto simp: share_conservation_def)
  have "(\<Sum>a\<in>UNIV. userShares w' vid a) + userShares w vid s
      = (\<Sum>a\<in>UNIV. userShares w vid a) + (userShares w vid s + shares)"
    unfolding un by (rule sum_fun_upd)
  then have sum: "(\<Sum>a\<in>UNIV. userShares w' vid a) = (\<Sum>a\<in>UNIV. userShares w vid a) + shares"
    by simp
  show ?thesis
    unfolding share_conservation_def
  proof (intro conjI allI impI)
    fix x
    show "(\<Sum>a\<in>UNIV. userShares w' x a) = totalShares (vaults w' x)"
    proof (cases "x = vid")
      case True
      with assms(2) sum vn show ?thesis by (simp add: share_conservation_def)
    next
      case False
      with assms(2) v u show ?thesis by (simp add: share_conservation_def)
    qed
  next
    fix x assume "vaultCount w' < x"
    with cnt inside have "vaultCount w < x" "x \<noteq> vid" by auto
    with assms(2) v show "owner (vaults w' x) = 0" by (simp add: share_conservation_def)
  next
    fix x assume "vaultCount w' < x"
    with cnt inside have "vaultCount w < x" "x \<noteq> vid" by auto
    with assms(2) v show "totalShares (vaults w' x) = 0" by (simp add: share_conservation_def)
  qed
qed

lemma withdraw_conserves:
  assumes "withdraw s vid shares w = Inr (r, w')" and "share_conservation w"
  shows "share_conservation w'"
proof -
  obtain amountA amountB where r: "r = (amountA, amountB)" by (cases r)
  note e = withdraw_effect [OF assms(1) [unfolded r]]
  from e have ex: "owner (vaults w vid) \<noteq> 0" and cnt: "vaultCount w' = vaultCount w"
    and le: "shares \<le> userShares w vid s" and le2: "shares \<le> totalShares (vaults w vid)"
    by simp_all
  from e have v: "\<And>x. x \<noteq> vid \<Longrightarrow> vaults w' x = vaults w x"
    and u: "\<And>x. x \<noteq> vid \<Longrightarrow> userShares w' x = userShares w x" by simp_all
  from e have vn: "totalShares (vaults w' vid) = totalShares (vaults w vid) - shares"
    and un: "userShares w' vid = (userShares w vid)(s := userShares w vid s - shares)"
    by simp_all
  from assms(2) ex have inside: "\<not> vaultCount w < vid"
    by (auto simp: share_conservation_def)
  have "(\<Sum>a\<in>UNIV. userShares w' vid a) + userShares w vid s
      = (\<Sum>a\<in>UNIV. userShares w vid a) + (userShares w vid s - shares)"
    unfolding un by (rule sum_fun_upd)
  with le have sum: "(\<Sum>a\<in>UNIV. userShares w' vid a) = (\<Sum>a\<in>UNIV. userShares w vid a) - shares"
    by simp
  show ?thesis
    unfolding share_conservation_def
  proof (intro conjI allI impI)
    fix x
    show "(\<Sum>a\<in>UNIV. userShares w' x a) = totalShares (vaults w' x)"
    proof (cases "x = vid")
      case True
      with assms(2) sum vn show ?thesis by (simp add: share_conservation_def)
    next
      case False
      with assms(2) v u show ?thesis by (simp add: share_conservation_def)
    qed
  next
    fix x assume "vaultCount w' < x"
    with cnt inside have "vaultCount w < x" "x \<noteq> vid" by auto
    with assms(2) v show "owner (vaults w' x) = 0" by (simp add: share_conservation_def)
  next
    fix x assume "vaultCount w' < x"
    with cnt inside have "vaultCount w < x" "x \<noteq> vid" by auto
    with assms(2) v show "totalShares (vaults w' x) = 0" by (simp add: share_conservation_def)
  qed
qed

lemma execute_effect:
  assumes "execute env s t c w = Inr w'"
  shows "(\<forall>a. nonces w a \<le> nonces w' a) \<and> (share_conservation w \<longrightarrow> share_conservation w')"
proof (cases c)
  case (CreateVault x1 x2 x3)
  with assms obtain v where "createVault s t x1 x2 x3 w = Inr (v, w')"
    by (auto simp: state_of_Inr_iff)
  from createVault_effect [OF this] createVault_conserves [OF this] show ?thesis by simp
next
  case (Deposit x1 x2 x3)
  with assms obtain v where "deposit s x1 x2 x3 w = Inr (v, w')"
    by (auto simp: state_of_Inr_iff)
  from deposit_effect [OF this] deposit_conserves [OF this] show ?thesis by simp
next
  case (Withdraw x1 x2)
  with assms obtain a b where "withdraw s x1 x2 w = Inr ((a, b), w')"
    by (auto simp: state_of_Inr_iff)
  from withdraw_effect [OF this] withdraw_conserves [OF this] show ?thesis by simp
next
  case (Rebalance x1 x2)
  with assms obtain v where "rebalance s t x1 x2 w = Inr (v, w')"
    by (auto simp: state_of_Inr_iff)
  from rebalance_kept [OF this] kept_conserves [of w w'] show ?thesis by auto
next
  case (ExecuteRebalance x1 x2 x3)
  with assms obtain v where "executeRebalance env s t x1 x2 x3 w = Inr (v, w')"
    by (auto simp: state_of_Inr_iff)
  from executeRebalance_kept [OF this] kept_conserves [of w w'] show ?thesis by auto
next
  case (TokenActivity x)
  with assms have "w' = w\<lparr>tokens := x\<rparr>" by auto
  then show ?thesis by (simp add: share_conservation_def)
next
  case (SetStrategyManager x1)
  with assms obtain v where "setStrategyManager s x1 w = Inr (v, w')"
    by (auto simp: state_of_Inr_iff)
  from vm_admin_kept(1) [OF this] kept_conserves [of w w'] show ?thesis by auto
next
  case (SetRelayerAuthorization x1 x2)
  with assms obtain v where "setRelayerAuthorization s x1 x2 w = Inr (v, w')"
    by (auto simp: state_of_Inr_iff)
  from vm_admin_kept(2) [OF this] kept_conserves [of w w'] show ?thesis by auto
next
  case (SetProtocolFee x1)
  with assms obtain v where "setProtocolFee s x1 w = Inr (v, w')"
    by (auto simp: state_of_Inr_iff)
  from vm_admin_kept(3) [OF this] kept_conserves [of w w'] show ?thesis by auto
next
  case (SetFeeRecipient x1)
  with assms obtain v where "setFeeRecipient s x1 w = Inr (v, w')"
    by (auto simp: state_of_Inr_iff)
  from vm_admin_kept(4) [OF this] kept_conserves [of w w'] show ?thesis by auto
next
  case Pause
  with assms obtain v where "pause s w = Inr (v, w')"
    by (auto simp: state_of_Inr_iff)
  from vm_admin_kept(5) [OF this] kept_conserves [of w w'] show ?thesis by auto
next
  case Unpause
  with assms obtain v where "unpause s w = Inr (v, w')"
    by (auto simp: state_of_Inr_iff)
  from vm_admin_kept(6) [OF this] kept_conserves [of w w'] show ?thesis by auto
next
  case (AttachStrategy x1 x2)
  with assms obtain v where "attachStrategy s x1 x2 w = Inr (v, w')"
    by (auto simp: state_of_Inr_iff)
  from vm_admin_kept(7) [OF this] kept_conserves [of w w'] show ?thesis by auto
next
  case (VmTransferOwnership x1)
  with assms obtain v where "vm_transferOwnership s x1 w = Inr (v, w')"
    by (auto simp: state_of_Inr_iff)
  from vm_admin_kept(8) [OF this] kept_conserves [of w w'] show ?thesis by auto
next
  case VmAcceptOwnership
  with assms obtain v where "vm_acceptOwnership s w = Inr (v, w')"
    by (auto simp: state_of_Inr_iff)
  from vm_admin_kept(9) [OF this] kept_conserves [of w w'] show ?thesis by auto
next
  case VmRenounceOwnership
  with assms obtain v where "vm_renounceOwnership s w = Inr (v, w')"
    by (auto simp: state_of_Inr_iff)
  from vm_admin_kept(10) [OF this] kept_conserves [of w w'] show ?thesis by auto
next
  case (SetSignerAuthorization x1 x2)
  with assms obtain v where "setSignerAuthorization s x1 x2 w = Inr (v, w')"
    by (auto simp: state_of_Inr_iff)
  from ex_admin_kept(1) [OF this] kept_conserves [of w w'] show ?thesis by auto
next
  case (SetVaultManager x1)
  with assms obtain v where "setVaultManager s x1 w = Inr (v, w')"
    by (auto simp: state_of_Inr_iff)
  from ex_admin_kept(2) [OF this] kept_conserves [of w w'] show ?thesis by auto
next
  case (SetMaxPayloadAge x1)
  with assms obtain v where "setMaxPayloadAge s x1 w = Inr (v, w')"
    by (auto simp: state_of_Inr_iff)
  from ex_admin_kept(3) [OF this] kept_conserves [of w w'] show ?thesis by auto
next
  case (SetMaxExpiryDuration x1)
  with assms obtain v where "setMaxExpiryDuration s x1 w = Inr (v, w')"
    by (auto simp: state_of_Inr_iff)
  from ex_admin_kept(4) [OF this] kept_conserves [of w w'] show ?thesis by auto
next
  case (ExTransferOwnership x1)
  with assms obtain v where "ex_transferOwnership s x1 w = Inr (v, w')"
    by (auto simp: state_of_Inr_iff)
  from ex_admin_kept(5) [OF this] kept_conserves [of w w'] show ?thesis by auto
next
  case ExAcceptOwnership
  with assms obtain v where "ex_acceptOwnership s w = Inr (v, w')"
    by (auto simp: state_of_Inr_iff)
  from ex_admin_kept(6) [OF this] kept_conserves [of w w'] show ?thesis by auto
next
  case ExRenounceOwnership
  with assms obtain v where "ex_renounceOwnership s w = Inr (v, w')"
    by (auto simp: state_of_Inr_iff)
  from ex_admin_kept(7) [OF this] kept_conserves [of w w'] show ?thesis by auto
qed

lemma transact_effect:
  "(\<forall>a. nonces w a \<le> nonces (transact env tx w) a)
   \<and> (share_conservation w \<longrightarrow> share_conservation (transact env tx w))"
proof (cases "execute env (msg_sender tx) (block_timestamp tx) (the_call tx) w")
  case (Inl e)
  then show ?thesis by (simp add: transact_def)
next
  case (Inr w')
  with execute_effect [OF Inr] show ?thesis by (simp add: transact_def)
qed

lemma run_effect:
  "(\<forall>a. nonces w a \<le> nonces (run env txs w) a)
   \<and> (share_conservation w \<longrightarrow> share_conservation (run env txs w))"
proof (induction txs arbitrary: w)
  case Nil
  show ?case by (simp add: run_def)
next
  case (Cons tx txs)
  have step: "run env (tx # txs) w = run env txs (transact env tx w)"
    by (simp add: run_def)
  from transact_effect [of w env tx] Cons.IH [of "transact env tx w"]
  show ?case unfolding step by (meson le_trans)
qed


lemma demo_execute:
  "executeRebalance demo_env 6 1200 1 [0] [9] demo_funded = Inr ((), demo_executed)"
  by (simp add: executeRebalance_def call_rebalance_def demo_env_def demo_payload_def
      rebalance_def nonReentrant_def whenNotPaused_def demo_decode_30
      demo_executed_def demo_funded_def demo_vault_def
      demo_deployed_def demo_tokens_def safeTransfer_def
      erc20_move_def checked_add_def checked_mul_def checked_sub_def UINT256_MAX_def Let_def)

lemma demo_funded_reached:
  "run demo_env
     [\<lparr>msg_sender = 5, block_timestamp = 1000, the_call = CreateVault 10 11 demo_params\<rparr>,
      \<lparr>msg_sender = 1, block_timestamp = 1001, the_call = SetRelayerAuthorization 6 True\<rparr>,
      \<lparr>msg_sender = 1, block_timestamp = 1001, the_call = SetRelayerAuthorization 17 True\<rparr>,
      \<lparr>msg_sender = 1, block_timestamp = 1002, the_call = SetSignerAuthorization 9 True\<rparr>,
      \<lparr>msg_sender = 5, block_timestamp = 1100,
         the_call = Deposit 1 (10 ^ 18) (6 * 10 ^ 8)\<rparr>]
     demo_deployed = demo_funded"
proof -
  have "transact demo_env \<lparr>msg_sender = 5, block_timestamp = 1100,
          the_call = Deposit 1 (10 ^ 18) (6 * 10 ^ 8)\<rparr> demo_vault = demo_funded"
    using demo_deposit by (simp add: transact_def state_of_def)
  then show ?thesis
    using demo_vault_reached by (simp add: run_def)
qed

section \<open>Claims about sequences of transactions\<close>

text \<open>
  C4. Starting from the state the two constructors leave, after every sequence of
  transactions (any external call of the two contracts by any caller at any time, reverted or
  not, and any activity on the tokens in between), the shares of all accounts in a vault add
  up to the vault's \<open>totalShares\<close>, for every vault id.
\<close>

theorem share_conservation_invariant:
  assumes "deploy vmDeployer recipient vmAddr exDeployer target exAddr toks = Inr w0"
  shows "(\<Sum>a\<in>UNIV. userShares (run env txs w0) vid a)
           = totalShares (vaults (run env txs w0) vid)"
proof -
  from assms have "share_conservation w0"
    by (auto simp: deploy_def share_conservation_def split: if_splits)
  with run_effect [of w0 env txs] have "share_conservation (run env txs w0)" by blast
  then show ?thesis by (simp add: share_conservation_def)
qed

theorem share_conservation_invariant_witness:
  "deploy 1 2 16 1 16 17 demo_tokens = Inr demo_deployed
   \<and> (\<Sum>a\<in>UNIV. userShares demo_funded 1 a) = totalShares (vaults demo_funded 1)
   \<and> totalShares (vaults demo_funded 1) = 24494897427831"
proof -
  have "totalShares (vaults demo_funded 1) = 24494897427831"
    by (simp add: demo_funded_def)
  then show ?thesis
    using share_conservation_invariant [OF demo_deployed_by_constructors, of demo_env
        "[\<lparr>msg_sender = 5, block_timestamp = 1000, the_call = CreateVault 10 11 demo_params\<rparr>,
          \<lparr>msg_sender = 1, block_timestamp = 1001, the_call = SetRelayerAuthorization 6 True\<rparr>,
          \<lparr>msg_sender = 1, block_timestamp = 1001, the_call = SetRelayerAuthorization 17 True\<rparr>,
          \<lparr>msg_sender = 1, block_timestamp = 1002, the_call = SetSignerAuthorization 9 True\<rparr>,
          \<lparr>msg_sender = 5, block_timestamp = 1100,
             the_call = Deposit 1 (10 ^ 18) (6 * 10 ^ 8)\<rparr>]" 1]
      demo_deployed_by_constructors
    unfolding demo_funded_reached by simp
qed

text \<open>
  C2 (as amended). When \<open>executeRebalance\<close> succeeds with a payload and signature, the
  stored nonce of the recovered signer was the payload's nonce and is now exactly one higher,
  and no other nonce changed. After that, whatever transactions happen in between, the same
  payload and signature never succeed again, for any caller, time and vault id: the
  resubmission reverts with the error of the first check that fails, in the order of the
  code. That is \<open>InvalidSignature\<close> when the call names another vault, \<open>PayloadExpired\<close> when
  \<open>now > expiry\<close>, \<open>PayloadTooOld\<close> when \<open>now < issuedAt\<close>, the arithmetic panic when
  \<open>issuedAt + maxPayloadAge\<close> does not fit in a \<open>uint256\<close>, \<open>PayloadTooOld\<close> when
  \<open>issuedAt + maxPayloadAge < now\<close>, \<open>UnauthorizedSigner\<close> when the signer is no longer
  authorized, and \<open>InvalidNonce\<close> in every other case.
\<close>

theorem executeRebalance_one_time_use:
  assumes "executeRebalance env sender now vid signedPayload signature w = Inr ((), w')"
  shows "\<exists>p signer. abi_decode_payload env signedPayload = Some p
      \<and> recover_signer env p signature = Inr signer
      \<and> nonces w signer = nonce p
      \<and> nonces w' signer = nonces w signer + 1
      \<and> (\<forall>a. a \<noteq> signer \<longrightarrow> nonces w' a = nonces w a)
      \<and> authorizedSigners w' signer
      \<and> maxPayloadAge w' = maxPayloadAge w
      \<and> (\<forall>txs sender' now' vid'. \<exists>e.
            executeRebalance env sender' now' vid' signedPayload signature (run env txs w')
              = Inl e)
      \<and> (\<forall>txs sender' now' vid'.
            executeRebalance env sender' now' vid' signedPayload signature (run env txs w')
              = Inl (if vid' \<noteq> vid then InvalidSignature
                     else if expiry p < now' then PayloadExpired
                     else if now' < issuedAt p then PayloadTooOld
                     else if UINT256_MAX < issuedAt p + maxPayloadAge (run env txs w')
                       then PanicArithmetic
                     else if issuedAt p + maxPayloadAge (run env txs w') < now'
                       then PayloadTooOld
                     else if \<not> authorizedSigners (run env txs w') signer
                       then UnauthorizedSigner
                     else InvalidNonce))"
proof -
  from assms [unfolded executeRebalance_Inr_iff]
  obtain p :: RebalancePayload and signer where
    dec: "abi_decode_payload env signedPayload = Some p"
    and vid: "RebalancePayload.vaultId p = vid"
    and rec: "recover_signer env p signature = Inr signer"
    and auth: "authorizedSigners w signer"
    and non: "nonces w signer = nonce p"
    and call: "call_rebalance env (vaultManager w) now vid (actionData p)
                 (w\<lparr>nonces := (nonces w)(signer := nonces w signer + 1)\<rparr>) = (True, w')"
    by blast
  note fr = call_rebalance_frame [OF call]
  from fr have n1: "nonces w' signer = nonces w signer + 1" by simp
  from fr have others: "\<forall>a. a \<noteq> signer \<longrightarrow> nonces w' a = nonces w a" by simp
  from fr auth have auth': "authorizedSigners w' signer" by simp
  from fr have age: "maxPayloadAge w' = maxPayloadAge w" by simp
  have used: "nonces (run env txs w') signer \<noteq> nonce p" for txs
  proof -
    have "nonces w' signer \<le> nonces (run env txs w') signer"
      using run_effect [of w' env txs] by blast
    with n1 non show ?thesis by simp
  qed
  have replay: "\<forall>txs sender' now' vid'.
      executeRebalance env sender' now' vid' signedPayload signature (run env txs w')
        = Inl (if vid' \<noteq> vid then InvalidSignature
               else if expiry p < now' then PayloadExpired
               else if now' < issuedAt p then PayloadTooOld
               else if UINT256_MAX < issuedAt p + maxPayloadAge (run env txs w')
                 then PanicArithmetic
               else if issuedAt p + maxPayloadAge (run env txs w') < now'
                 then PayloadTooOld
               else if \<not> authorizedSigners (run env txs w') signer
                 then UnauthorizedSigner
               else InvalidNonce)"
  proof (intro allI)
    fix txs sender' now' vid'
    show "executeRebalance env sender' now' vid' signedPayload signature (run env txs w')
        = Inl (if vid' \<noteq> vid then InvalidSignature
               else if expiry p < now' then PayloadExpired
               else if now' < issuedAt p then PayloadTooOld
               else if UINT256_MAX < issuedAt p + maxPayloadAge (run env txs w')
                 then PanicArithmetic
               else if issuedAt p + maxPayloadAge (run env txs w') < now'
                 then PayloadTooOld
               else if \<not> authorizedSigners (run env txs w') signer
                 then UnauthorizedSigner
               else InvalidNonce)"
      using dec rec vid used [of txs]
      by (auto simp: executeRebalance_def checked_add_def)
  qed
  have never: "\<forall>txs sender' now' vid'. \<exists>e.
      executeRebalance env sender' now' vid' signedPayload signature (run env txs w') = Inl e"
    using replay by blast
  show ?thesis
    by (intro exI [of _ p] exI [of _ signer] conjI dec rec non n1 others auth' age never replay)
qed

theorem executeRebalance_one_time_use_witness:
  "executeRebalance demo_env 6 1200 1 [0] [9] demo_funded = Inr ((), demo_executed)
   \<and> nonces demo_executed 9 = nonces demo_funded 9 + 1
   \<and> executeRebalance demo_env 6 5000 1 [0] [9] demo_executed = Inl PayloadExpired
   \<and> executeRebalance demo_env 6 1300 1 [0] [9] demo_executed = Inl InvalidNonce"
proof -
  from executeRebalance_one_time_use [OF demo_execute]
  obtain p :: RebalancePayload and signer where
    dec: "abi_decode_payload demo_env [0] = Some p"
    and rec: "recover_signer demo_env p [9] = Inr signer"
    and n1: "nonces demo_executed signer = nonces demo_funded signer + 1"
    and replay: "\<forall>txs sender' now' vid'.
        executeRebalance demo_env sender' now' vid' [0] [9] (run demo_env txs demo_executed)
          = Inl (if vid' \<noteq> 1 then InvalidSignature
                 else if expiry p < now' then PayloadExpired
                 else if now' < issuedAt p then PayloadTooOld
                 else if UINT256_MAX < issuedAt p + maxPayloadAge (run demo_env txs demo_executed)
                   then PanicArithmetic
                 else if issuedAt p + maxPayloadAge (run demo_env txs demo_executed) < now'
                   then PayloadTooOld
                 else if \<not> authorizedSigners (run demo_env txs demo_executed) signer
                   then UnauthorizedSigner
                 else InvalidNonce)"
    by blast
  from dec have p: "p = demo_payload 0 1000 4600" by (simp add: demo_env_def)
  from rec have s: "signer = 9" by (auto simp: demo_env_def)
  have r0: "run demo_env [] demo_executed = demo_executed" by (simp add: run_def)
  have facts: "expiry p = 4600" "issuedAt p = 1000" "maxPayloadAge demo_executed = 600"
    "authorizedSigners demo_executed signer"
    unfolding p s
    by (simp_all add: demo_payload_def demo_executed_def demo_funded_def demo_vault_def
        demo_deployed_def)
  note late = replay [rule_format, of 6 5000 1 "[]", unfolded r0]
  note soon = replay [rule_format, of 6 1300 1 "[]", unfolded r0]
  have a: "executeRebalance demo_env 6 5000 1 [0] [9] demo_executed = Inl PayloadExpired"
    unfolding late by (simp add: facts)
  have b: "executeRebalance demo_env 6 1300 1 [0] [9] demo_executed = Inl InvalidNonce"
    unfolding soon by (simp add: facts UINT256_MAX_def)
  from n1 have c: "nonces demo_executed 9 = nonces demo_funded 9 + 1" unfolding s .
  show ?thesis by (intro conjI demo_execute c a b)
qed

text \<open>
  C2 as stated fails in the error it names: resubmitted 800 seconds after issuance, the
  payload that succeeded at time 1200 is rejected by the age check with \<open>PayloadTooOld\<close>
  before the nonce is looked at.
\<close>

theorem replay_after_payload_age_counterexample:
  "executeRebalance demo_env 6 1200 1 [0] [9] demo_funded = Inr ((), demo_executed)
   \<and> executeRebalance demo_env 6 2000 1 [0] [9] demo_executed = Inl PayloadTooOld
   \<and> executeRebalance demo_env 6 2000 1 [0] [9] demo_executed \<noteq> Inl InvalidNonce"
proof -
  have "executeRebalance demo_env 6 2000 1 [0] [9] demo_executed = Inl PayloadTooOld"
    by (simp add: executeRebalance_def demo_env_def demo_payload_def demo_executed_def
        demo_funded_def demo_vault_def demo_deployed_def checked_add_def UINT256_MAX_def)
  with demo_execute show ?thesis by simp
qed

end
